theory Spec2Isabelle
  imports Complex_Main "HOL-Library.Char_ord" "HOL-Library.List_Lexorder" "HOL-Library.Option_ord"
    "HOL-Library.Multiset"
begin

section \<open>Values a device can send\<close>

text \<open>
  The body of a report is parsed JSON, so every field the handler reads is a Python
  value of one of the JSON kinds. A float is kept as the rational it denotes
  (NaN and the infinities are left out). \<open>JObj\<close> holds a parsed dict: the first
  pair for a key is the key's binding. A character of a string is a code point below
  256; whether a text stream can encode a string is the codec's answer, which the
  surroundings give (see \<open>env\<close>).
\<close>

datatype json =
    JNull
  | JBool bool
  | JInt int
  | JFloat rat
  | JStr string
  | JArr "json list"
  | JObj "(string \<times> json) list"

text \<open>Python's truth value of an object, as \<^verbatim>\<open>if detection and ...\<close> takes it.\<close>

fun truthy :: "json \<Rightarrow> bool" where
  "truthy JNull = False"
| "truthy (JBool b) = b"
| "truthy (JInt i) = (i \<noteq> 0)"
| "truthy (JFloat r) = (r \<noteq> 0)"
| "truthy (JStr s) = (s \<noteq> [])"
| "truthy (JArr xs) = (xs \<noteq> [])"
| "truthy (JObj kvs) = (kvs \<noteq> [])"

text \<open>\<^verbatim>\<open>data.get(key, default)\<close> on a dict.\<close>

definition dict_get :: "(string \<times> json) list \<Rightarrow> string \<Rightarrow> json \<Rightarrow> json" where
  "dict_get kvs k d = (case map_of kvs k of None \<Rightarrow> d | Some v \<Rightarrow> v)"

text \<open>The name Python prints for the type of a value that has no \<^verbatim>\<open>get\<close>.\<close>

fun type_name :: "json \<Rightarrow> string" where
  "type_name JNull = ''NoneType''"
| "type_name (JBool b) = ''bool''"
| "type_name (JInt i) = ''int''"
| "type_name (JFloat r) = ''float''"
| "type_name (JStr s) = ''str''"
| "type_name (JArr xs) = ''list''"
| "type_name (JObj kvs) = ''dict''"

section \<open>Exceptions\<close>

datatype error =
    AttributeError string
  | OSError string
  | StopIteration
  | IndexError
  | BadRequest string
  | UnicodeEncodeError string
  | CsvError string

text \<open>\<^verbatim>\<open>str(e)\<close>, the text the handlers put into an error response.\<close>

fun str_error :: "error \<Rightarrow> string" where
  "str_error (AttributeError m) = m"
| "str_error (OSError m) = m"
| "str_error StopIteration = []"
| "str_error IndexError = ''list index out of range''"
| "str_error (BadRequest m) = m"
| "str_error (UnicodeEncodeError m) = m"
| "str_error (CsvError m) = m"

section \<open>Documents of the events collection\<close>

text \<open>
  A document of the events collection. The collection has no schema, so every field
  but the id may be absent.
\<close>

record event_doc =
  doc_id :: string
  doc_timestamp :: "int option"
  doc_timestamp_str :: "string option"
  doc_device_id :: "json option"
  doc_detection :: "json option"
  doc_alert_type :: "json option"
  doc_sms_sent :: "json option"

section \<open>The surroundings of one request\<close>

text \<open>
  What the clock, the file system, the SMS provider, the MongoDB driver and the
  Python runtime answer while one request is handled. None of it is code of the
  repository, so it is a parameter of every handler.
\<close>

record env =
  now_str :: string                    \<comment> \<open>\<^verbatim>\<open>get_current_timestamp()\<close>\<close>
  now_dt :: int                        \<comment> \<open>\<^verbatim>\<open>get_current_datetime()\<close>, as an instant\<close>
  now_epoch :: rat                     \<comment> \<open>\<^verbatim>\<open>time.time()\<close>\<close>
  twilio_accepts :: bool               \<comment> \<open>\<^verbatim>\<open>messages.create\<close> returns; otherwise it raises\<close>
  csv_oserror :: "string option"       \<comment> \<open>\<^verbatim>\<open>open(CSV_FILE, ...)\<close> raises OSError with this text\<close>
  mongo_insert_id :: "string option"   \<comment> \<open>\<^verbatim>\<open>insert_one\<close> returns this id; \<open>None\<close>: it raises\<close>
  mongo_find_ok :: bool                \<comment> \<open>\<^verbatim>\<open>find().sort().limit()\<close> returns; otherwise it raises\<close>
  mongo_sorted :: "event_doc list \<Rightarrow> event_doc list"
                                       \<comment> \<open>the collection in the order \<^verbatim>\<open>sort('timestamp', -1)\<close> gives\<close>
  mongo_count_ok :: bool               \<comment> \<open>\<^verbatim>\<open>count_documents\<close> returns; otherwise it raises\<close>
  str_other :: "json \<Rightarrow> string"        \<comment> \<open>\<^verbatim>\<open>str\<close> of a float, a list or a dict\<close>
  str_datetime :: "int \<Rightarrow> string"      \<comment> \<open>\<^verbatim>\<open>str\<close> of a datetime\<close>
  stdout_encode_error :: "string \<Rightarrow> string option"
                                       \<comment> \<open>\<^verbatim>\<open>print\<close> of this text raises UnicodeEncodeError\<close>
  file_encode_error :: "string \<Rightarrow> string option"
                                       \<comment> \<open>writing this text to the file raises UnicodeEncodeError\<close>

section \<open>Rendering of a field by the csv writer\<close>

definition digit_char :: "nat \<Rightarrow> char" where
  "digit_char d = char_of (48 + d)"

fun show_nat :: "nat \<Rightarrow> string" where
  "show_nat n = (if n < 10 then [digit_char n] else show_nat (n div 10) @ [digit_char (n mod 10)])"

declare show_nat.simps [simp del]

definition show_int :: "int \<Rightarrow> string" where
  "show_int i = (if i < 0 then CHR ''-'' # show_nat (nat (- i)) else show_nat (nat i))"

text \<open>
  \<^verbatim>\<open>csv.writer.writerow\<close> writes \<^verbatim>\<open>None\<close> as the empty field, a string as it is
  and anything else through \<^verbatim>\<open>str\<close>.
\<close>

fun csv_cell :: "env \<Rightarrow> json \<Rightarrow> string" where
  "csv_cell en JNull = []"
| "csv_cell en (JStr s) = s"
| "csv_cell en (JBool b) = (if b then ''True'' else ''False'')"
| "csv_cell en (JInt i) = show_int i"
| "csv_cell en v = str_other en v"

text \<open>\<^verbatim>\<open>str\<close> of a value, as an f-string formats it.\<close>

fun py_str :: "env \<Rightarrow> json \<Rightarrow> string" where
  "py_str en JNull = ''None''"
| "py_str en (JStr s) = s"
| "py_str en (JBool b) = (if b then ''True'' else ''False'')"
| "py_str en (JInt i) = show_int i"
| "py_str en v = str_other en v"

text \<open>
  The first field of a row that the file's codec cannot encode makes
  \<^verbatim>\<open>writerow\<close> raise.
\<close>

fun writerow_error :: "env \<Rightarrow> string list \<Rightarrow> string option" where
  "writerow_error en [] = None"
| "writerow_error en (c # cs) =
     (case file_encode_error en c of Some m \<Rightarrow> Some m | None \<Rightarrow> writerow_error en cs)"

declare writerow_error.simps [simp del]

section \<open>Process state\<close>

datatype log_line =
    TwilioNotAvailable
  | SmsSentSid
  | SmsSendError
  | MongoSaved
  | MongoSaveError
  | MongoFetchError
  | ReceivedFallEvent
  | ProcessingError
  | CreatedCsv

text \<open>What the process does to the outside, in the order it does it.\<close>

datatype effect =
    SmsGateway json json      \<comment> \<open>\<^verbatim>\<open>send_sms_alert(device_id, alert_type)\<close> is entered\<close>
  | TwilioCreate json json    \<comment> \<open>\<^verbatim>\<open>twilio_client.messages.create\<close> is called\<close>
  | CsvAppend "string list"   \<comment> \<open>a row is written at the end of the file\<close>
  | MongoInsertOne            \<comment> \<open>\<^verbatim>\<open>events_collection.insert_one\<close> is called\<close>
  | Print log_line

text \<open>
  The module's globals and the two stores. The file is the list of the rows written
  to it with \<^verbatim>\<open>csv.writer\<close> and \<^verbatim>\<open>newline=''\<close>, header first, each field as it
  was written; \<open>None\<close> is a file that does not exist. What a reader gets back from
  a written field is said where the file is read. Only files written so, in the codec
  the process reads with, are described.
\<close>

record world =
  TWILIO_AVAILABLE :: bool
  MONGO_AVAILABLE :: bool
  csv_file :: "string list list option"
  events_collection :: "event_doc list"
  effects :: "effect list"

definition TIMEZONE :: string where
  "TIMEZONE = ''Asia/Kolkata''"

definition emit :: "effect \<Rightarrow> world \<Rightarrow> world" where
  "emit e w = w\<lparr>effects := effects w @ [e]\<rparr>"

definition file_rows :: "string list list option \<Rightarrow> string list list" where
  "file_rows f = (case f of None \<Rightarrow> [] | Some rows \<Rightarrow> rows)"

definition csv_header :: "string list" where
  "csv_header = [''timestamp'', ''detection'', ''alert_type'', ''device_id'', ''sms_sent'']"

definition initialize_csv :: "world \<Rightarrow> world" where
  "initialize_csv w =
     (case csv_file w of
        None \<Rightarrow> emit (Print CreatedCsv) (w\<lparr>csv_file := Some [csv_header]\<rparr>)
      | Some rows \<Rightarrow> w)"

section \<open>Notification gateway\<close>

definition send_sms_alert :: "env \<Rightarrow> world \<Rightarrow> json \<Rightarrow> json \<Rightarrow> bool \<times> world" where
  "send_sms_alert en w device_id alert_type =
     (let w1 = emit (SmsGateway device_id alert_type) w in
      if \<not> TWILIO_AVAILABLE w1 then (False, emit (Print TwilioNotAvailable) w1)
      else
        (let w2 = emit (TwilioCreate device_id alert_type) w1 in
         if twilio_accepts en then (True, emit (Print SmsSentSid) w2)
         else (False, emit (Print SmsSendError) w2)))"

section \<open>Writing an event\<close>

text \<open>
  In \<open>log_event\<close> the file is opened for appending, which creates it when it does
  not exist, before \<^verbatim>\<open>writerow\<close> encodes the row: a row that cannot be encoded
  raises with nothing written, and leaves a file that exists.
\<close>

definition new_event_doc :: "env \<Rightarrow> string \<Rightarrow> string \<Rightarrow> json \<Rightarrow> json \<Rightarrow> json \<Rightarrow> string \<Rightarrow> event_doc" where
  "new_event_doc en oid timestamp device_id detection alert_type sms_sent =
     \<lparr>doc_id = oid,
      doc_timestamp = Some (now_dt en),
      doc_timestamp_str = Some timestamp,
      doc_device_id = Some device_id,
      doc_detection = Some detection,
      doc_alert_type = Some alert_type,
      doc_sms_sent = Some (JStr sms_sent)\<rparr>"

definition mongo_write :: "env \<Rightarrow> world \<Rightarrow> string \<Rightarrow> json \<Rightarrow> json \<Rightarrow> json \<Rightarrow> string \<Rightarrow> world" where
  "mongo_write en w timestamp device_id detection alert_type sms_sent =
     (if MONGO_AVAILABLE w then
        (let w1 = emit MongoInsertOne w in
         case mongo_insert_id en of
           Some oid \<Rightarrow>
             emit (Print MongoSaved)
               (w1\<lparr>events_collection := events_collection w1 @
                      [new_event_doc en oid timestamp device_id detection alert_type sms_sent]\<rparr>)
         | None \<Rightarrow> emit (Print MongoSaveError) w1)
      else w)"

definition log_event :: "env \<Rightarrow> world \<Rightarrow> json \<Rightarrow> json \<Rightarrow> json \<Rightarrow> (error + string) \<times> world" where
  "log_event en w detection alert_type device_id =
     (let timestamp = now_str en;
          (sms_sent, w1) =
             (if truthy detection \<and> alert_type = JStr ''real alert'' then
                (let (sms_success, w') = send_sms_alert en w device_id alert_type
                 in (if sms_success then ''Yes'' else ''Failed'', w'))
              else (''No'', w))
      in case csv_oserror en of
           Some msg \<Rightarrow> (Inl (OSError msg), w1)
         | None \<Rightarrow>
            (let row = [timestamp, csv_cell en detection, csv_cell en alert_type,
                        csv_cell en device_id, sms_sent]
             in case writerow_error en row of
                  Some m \<Rightarrow>
                    (Inl (UnicodeEncodeError m), w1\<lparr>csv_file := Some (file_rows (csv_file w1))\<rparr>)
                | None \<Rightarrow>
                    (let w2 = emit (CsvAppend row)
                                (w1\<lparr>csv_file := Some (file_rows (csv_file w1) @ [row])\<rparr>);
                         w3 = mongo_write en w2 timestamp device_id detection alert_type sms_sent
                     in (Inr sms_sent, w3))))"

section \<open>Reading events back\<close>

text \<open>The two \<^verbatim>\<open>if len(event) < ...: event.append(...)\<close> of the reader, for one row.\<close>

definition add_missing_columns :: "string list \<Rightarrow> string list" where
  "add_missing_columns event =
     (let event1 = (if length event < 4 then event @ [''unknown''] else event)
      in if length event1 < 5 then event1 @ [''No''] else event1)"

text \<open>
  The reader opens the file without \<^verbatim>\<open>newline=''\<close>, so the text layer hands every
  carriage return of a written field, alone or before a line feed, to the csv module
  as one line feed.
\<close>

fun universal_newlines :: "string \<Rightarrow> string" where
  "universal_newlines [] = []"
| "universal_newlines (c # cs) =
     (if c = CHR 0x0D then
        (case cs of
           [] \<Rightarrow> [CHR 0x0A]
         | d # ds \<Rightarrow> if d = CHR 0x0A then CHR 0x0A # universal_newlines ds
                    else CHR 0x0A # universal_newlines cs)
      else c # universal_newlines cs)"

text \<open>
  \<^verbatim>\<open>csv.reader\<close> raises \<^verbatim>\<open>_csv.Error\<close> for a field longer than
  \<^verbatim>\<open>csv.field_size_limit()\<close>, which is 131072 unless changed; the code does not
  change it. The length is that of the field as it is read. Nothing else in a file
  written by \<^verbatim>\<open>csv.writer\<close> makes the reader of Python 3.11 raise.
\<close>

definition field_size_limit :: nat where
  "field_size_limit = 131072"

definition field_too_large :: "string list \<Rightarrow> bool" where
  "field_too_large row = list_ex (\<lambda>c. field_size_limit < length (universal_newlines c)) row"

text \<open>
  \<^verbatim>\<open>next(reader)\<close> reads the first row and \<^verbatim>\<open>list(reader)\<close> all the others,
  before the list is reversed and cut.
\<close>

definition get_events_from_csv :: "env \<Rightarrow> world \<Rightarrow> error + string list list" where
  "get_events_from_csv en w =
     (case csv_file w of
        None \<Rightarrow> Inr []
      | Some rows \<Rightarrow>
         (case csv_oserror en of
            Some msg \<Rightarrow> Inl (OSError msg)
          | None \<Rightarrow>
             (case rows of
                [] \<Rightarrow> Inl StopIteration
              | header # rest \<Rightarrow>
                  if list_ex field_too_large (header # rest)
                  then Inl (CsvError ''field larger than field limit (131072)'')
                  else Inr (map add_missing_columns
                              (take 20 (rev (map (map universal_newlines) rest)))))))"

record response =
  status_code :: nat
  body :: json

text \<open>The dict the \<^verbatim>\<open>/events\<close> route builds from one row of the file.\<close>

definition csv_event_dict :: "string list \<Rightarrow> error + json" where
  "csv_event_dict e =
     (if length e < 3 then Inl IndexError
      else Inr (JObj ([(''timestamp'', JStr (e ! 0)),
                       (''detection'', JStr (e ! 1)),
                       (''alert_type'', JStr (e ! 2))]
                      @ (if length e > 3 then [(''device_id'', JStr (e ! 3))] else [])
                      @ (if length e > 4 then [(''sms_sent'', JStr (e ! 4))] else []))))"

fun csv_event_dicts :: "string list list \<Rightarrow> error + json list" where
  "csv_event_dicts [] = Inr []"
| "csv_event_dicts (e # es) =
     (case csv_event_dict e of
        Inl err \<Rightarrow> Inl err
      | Inr d \<Rightarrow> (case csv_event_dicts es of Inl err \<Rightarrow> Inl err | Inr ds \<Rightarrow> Inr (d # ds)))"

text \<open>
  \<^verbatim>\<open>events_collection.find().sort('timestamp', -1).limit(20)\<close>: the first twenty
  documents of the order the driver gives. The order is the driver's and is taken from
  the surroundings.
\<close>

definition find_sort_limit :: "env \<Rightarrow> event_doc list \<Rightarrow> event_doc list" where
  "find_sort_limit en docs = take 20 (mongo_sorted en docs)"

text \<open>
  What the driver documents for \<^verbatim>\<open>sort('timestamp', -1)\<close>: the same documents, by
  falling value of the field \<open>timestamp\<close>, a document without it after all others;
  the order of documents with equal values is not fixed.
\<close>

definition sorted_as_documented :: "env \<Rightarrow> event_doc list \<Rightarrow> bool" where
  "sorted_as_documented en docs \<longleftrightarrow>
     mset (mongo_sorted en docs) = mset docs \<and>
     sorted (rev (map doc_timestamp (mongo_sorted en docs)))"

definition or_default :: "json option \<Rightarrow> json \<Rightarrow> json" where
  "or_default v d = (case v of None \<Rightarrow> d | Some x \<Rightarrow> x)"

definition mongo_event_dict :: "env \<Rightarrow> event_doc \<Rightarrow> json" where
  "mongo_event_dict en event =
     JObj [(''timestamp'',
             JStr (case doc_timestamp_str event of
                     Some s \<Rightarrow> s
                   | None \<Rightarrow> (case doc_timestamp event of
                                None \<Rightarrow> ''None''
                              | Some t \<Rightarrow> str_datetime en t))),
           (''detection'', or_default (doc_detection event) JNull),
           (''alert_type'', or_default (doc_alert_type event) (JStr ''unknown'')),
           (''device_id'', or_default (doc_device_id event) (JStr ''unknown'')),
           (''sms_sent'', or_default (doc_sms_sent event) (JStr ''No'')),
           (''_id'', JStr (doc_id event))]"

definition events_error :: "error \<Rightarrow> response" where
  "events_error e = \<lparr>status_code = 500, body = JObj [(''error'', JStr (str_error e))]\<rparr>"

definition events_from_csv :: "env \<Rightarrow> world \<Rightarrow> response" where
  "events_from_csv en w =
     (case get_events_from_csv en w of
        Inl e \<Rightarrow> events_error e
      | Inr csv_events \<Rightarrow>
         (case csv_event_dicts csv_events of
            Inl e \<Rightarrow> events_error e
          | Inr ds \<Rightarrow> \<lparr>status_code = 200, body = JArr ds\<rparr>))"

definition events :: "env \<Rightarrow> world \<Rightarrow> response \<times> world" where
  "events en w =
     (if MONGO_AVAILABLE w then
        (if mongo_find_ok en then
           (\<lparr>status_code = 200,
             body = JArr (map (mongo_event_dict en) (find_sort_limit en (events_collection w)))\<rparr>, w)
         else
           (let w1 = emit (Print MongoFetchError) w in (events_from_csv en w1, w1)))
      else (events_from_csv en w, w))"

section \<open>Receiving a report\<close>

definition fall_event_error :: "error \<Rightarrow> world \<Rightarrow> response \<times> world" where
  "fall_event_error e w =
     (\<lparr>status_code = 500,
       body = JObj [(''status'', JStr ''error''), (''message'', JStr (str_error e))]\<rparr>,
      emit (Print ProcessingError) w)"

text \<open>
  \<open>request_json\<close> is what \<^verbatim>\<open>request.json\<close> gives: the parsed body, or the exception
  Flask raises for a body it cannot parse.
\<close>

text \<open>
  The line the route prints before it logs the event. It is the one printed line that
  shows what a device sent; the other lines show constants, ids and the texts of
  exceptions, and printing them is taken to raise nothing.
\<close>

definition received_line :: "env \<Rightarrow> json \<Rightarrow> json \<Rightarrow> json \<Rightarrow> string" where
  "received_line en detected alert_type device_id =
     ''Received fall event: Detected='' @ py_str en detected @
     '', Type='' @ py_str en alert_type @
     '', Device='' @ py_str en device_id"

definition fall_event :: "env \<Rightarrow> world \<Rightarrow> error + json \<Rightarrow> response \<times> world" where
  "fall_event en w request_json =
     (case request_json of
        Inl e \<Rightarrow> fall_event_error e w
      | Inr data \<Rightarrow>
         (case data of
            JObj kvs \<Rightarrow>
              (let detected = dict_get kvs ''detect'' (JBool False);
                   alert_type = dict_get kvs ''type'' (JStr ''unknown'');
                   device_id = dict_get kvs ''device_id'' (JStr ''unknown'')
               in case stdout_encode_error en (received_line en detected alert_type device_id) of
                    Some m \<Rightarrow> fall_event_error (UnicodeEncodeError m) w
                  | None \<Rightarrow>
                     (case log_event en (emit (Print ReceivedFallEvent) w)
                             detected alert_type device_id of
                        (Inl e, w2) \<Rightarrow> fall_event_error e w2
                      | (Inr sms_status, w2) \<Rightarrow>
                          (\<lparr>status_code = 200,
                            body = JObj [(''status'', JStr ''success''),
                                         (''message'', JStr ''Event logged successfully''),
                                         (''sms_alert'', JStr sms_status)]\<rparr>, w2)))
          | _ \<Rightarrow>
              fall_event_error
                (AttributeError ([CHR 0x27] @ type_name data @ [CHR 0x27] @
                                 '' object has no attribute '' @ [CHR 0x27] @ ''get'' @ [CHR 0x27]))
                w))"

section \<open>Status\<close>

text \<open>
  The lines a written field adds to its row: one for every line feed and every
  carriage return in it, a carriage return with the line feed after it counting once.
\<close>

fun line_breaks :: "string \<Rightarrow> nat" where
  "line_breaks [] = 0"
| "line_breaks (c # cs) =
     (if c = CHR 0x0D then
        (case cs of
           [] \<Rightarrow> 1
         | d # ds \<Rightarrow> if d = CHR 0x0A then Suc (line_breaks ds) else Suc (line_breaks cs))
      else if c = CHR 0x0A then Suc (line_breaks cs)
      else line_breaks cs)"

definition file_lines :: "string list list \<Rightarrow> nat" where
  "file_lines rows = sum_list (map (\<lambda>row. Suc (sum_list (map line_breaks row))) rows)"

text \<open>
  \<^verbatim>\<open>sum(1 for line in open(CSV_FILE)) - 1\<close>, guarded by \<^verbatim>\<open>os.path.exists\<close>: the
  lines of the file, not its rows.
\<close>

definition csv_record_count :: "env \<Rightarrow> world \<Rightarrow> error + int" where
  "csv_record_count en w =
     (case csv_file w of
        None \<Rightarrow> Inr 0
      | Some rows \<Rightarrow>
         (case csv_oserror en of
            Some msg \<Rightarrow> Inl (OSError msg)
          | None \<Rightarrow> Inr (int (file_lines rows) - 1)))"

definition connected :: "bool \<Rightarrow> json" where
  "connected b = JStr (if b then ''connected'' else ''disconnected'')"

text \<open>An exception that leaves the route is the \<open>Inl\<close> result.\<close>

definition api_status :: "env \<Rightarrow> world \<Rightarrow> error + response" where
  "api_status en w =
     (case (if MONGO_AVAILABLE w then
              (if mongo_count_ok en then Inr (int (length (events_collection w)))
               else csv_record_count en w)
            else csv_record_count en w) of
        Inl e \<Rightarrow> Inl e
      | Inr record_count \<Rightarrow>
          Inr \<lparr>status_code = 200,
               body = JObj [(''status'', JStr ''online''),
                            (''time'', JFloat (now_epoch en)),
                            (''timezone'', JStr TIMEZONE),
                            (''records_count'', JInt record_count),
                            (''database'', JStr (if MONGO_AVAILABLE w then ''mongodb'' else ''csv'')),
                            (''mongo_status'', connected (MONGO_AVAILABLE w)),
                            (''twilio_status'', connected (TWILIO_AVAILABLE w))]\<rparr>)"

section \<open>Observations on a run\<close>

text \<open>The calls of \<^verbatim>\<open>send_sms_alert\<close> among the effects, with their arguments.\<close>

fun gateway_calls :: "effect list \<Rightarrow> (json \<times> json) list" where
  "gateway_calls [] = []"
| "gateway_calls (SmsGateway d a # es) = (d, a) # gateway_calls es"
| "gateway_calls (e # es) = gateway_calls es"

text \<open>The calls that reach the SMS provider.\<close>

fun provider_calls :: "effect list \<Rightarrow> (json \<times> json) list" where
  "provider_calls [] = []"
| "provider_calls (TwilioCreate d a # es) = (d, a) # provider_calls es"
| "provider_calls (e # es) = provider_calls es"

text \<open>The writes to the two stores, in the order they are made.\<close>

fun store_writes :: "effect list \<Rightarrow> effect list" where
  "store_writes [] = []"
| "store_writes (CsvAppend r # es) = CsvAppend r # store_writes es"
| "store_writes (MongoInsertOne # es) = MongoInsertOne # store_writes es"
| "store_writes (e # es) = store_writes es"

fun printed :: "effect list \<Rightarrow> log_line list" where
  "printed [] = []"
| "printed (Print l # es) = l # printed es"
| "printed (e # es) = printed es"

text \<open>A key of the JSON object a route answers with.\<close>

definition body_field :: "response \<Rightarrow> string \<Rightarrow> json option" where
  "body_field r k = (case body r of JObj kvs \<Rightarrow> map_of kvs k | _ \<Rightarrow> None)"

text \<open>The records of the JSON array \<^verbatim>\<open>/events\<close> answers with.\<close>

definition body_records :: "response \<Rightarrow> json list" where
  "body_records r = (case body r of JArr xs \<Rightarrow> xs | _ \<Rightarrow> [])"

definition record_field :: "json \<Rightarrow> string \<Rightarrow> json option" where
  "record_field v k = (case v of JObj kvs \<Rightarrow> map_of kvs k | _ \<Rightarrow> None)"

text \<open>
  The outcome \<open>log_event\<close> computes for the notification, and the row it writes.
\<close>

definition sms_outcome :: "env \<Rightarrow> world \<Rightarrow> json \<Rightarrow> json \<Rightarrow> json \<Rightarrow> string" where
  "sms_outcome en w detection alert_type device_id =
     (if truthy detection \<and> alert_type = JStr ''real alert''
      then (if fst (send_sms_alert en w device_id alert_type) then ''Yes'' else ''Failed'')
      else ''No'')"

definition event_row :: "env \<Rightarrow> world \<Rightarrow> json \<Rightarrow> json \<Rightarrow> json \<Rightarrow> string list" where
  "event_row en w detection alert_type device_id =
     [now_str en, csv_cell en detection, csv_cell en alert_type, csv_cell en device_id,
      sms_outcome en w detection alert_type device_id]"

text \<open>The world \<open>log_event\<close> has reached when it opens the file.\<close>

definition after_sms :: "env \<Rightarrow> world \<Rightarrow> json \<Rightarrow> json \<Rightarrow> json \<Rightarrow> world" where
  "after_sms en w detection alert_type device_id =
     (if truthy detection \<and> alert_type = JStr ''real alert''
      then snd (send_sms_alert en w device_id alert_type) else w)"

text \<open>
  For the fields of an object payload, neither the \<^verbatim>\<open>print\<close> of the route nor
  \<^verbatim>\<open>writerow\<close> raises UnicodeEncodeError.
\<close>

definition encodes_report :: "env \<Rightarrow> world \<Rightarrow> (string \<times> json) list \<Rightarrow> bool" where
  "encodes_report en w kvs \<longleftrightarrow>
     stdout_encode_error en
       (received_line en (dict_get kvs ''detect'' (JBool False))
                         (dict_get kvs ''type'' (JStr ''unknown''))
                         (dict_get kvs ''device_id'' (JStr ''unknown''))) = None \<and>
     writerow_error en
       (event_row en w (dict_get kvs ''detect'' (JBool False))
                       (dict_get kvs ''type'' (JStr ''unknown''))
                       (dict_get kvs ''device_id'' (JStr ''unknown''))) = None"

section \<open>Sample surroundings\<close>

text \<open>
  Every outside call succeeds; both text streams encode every string (as UTF-8 does
  for code points below 256), and the driver sorts by falling timestamp, later
  insertions first among equals.
\<close>

definition env_ok :: env where
  "env_ok =
     \<lparr>now_str = ''2024-05-01 10:00:00 IST'', now_dt = 1714537800000, now_epoch = 1714537800,
      twilio_accepts = True, csv_oserror = None, mongo_insert_id = Some ''663200a1'',
      mongo_find_ok = True, mongo_sorted = (\<lambda>docs. rev (sort_key doc_timestamp docs)),
      mongo_count_ok = True,
      str_other = (\<lambda>v. ''<repr>''), str_datetime = (\<lambda>t. ''<datetime>''),
      stdout_encode_error = (\<lambda>s. None), file_encode_error = (\<lambda>s. None)\<rparr>"

text \<open>A process without MongoDB, its file holding the header only.\<close>

definition world_csv_only :: world where
  "world_csv_only =
     \<lparr>TWILIO_AVAILABLE = True, MONGO_AVAILABLE = False, csv_file = Some [csv_header],
      events_collection = [], effects = []\<rparr>"

text \<open>A process with MongoDB, the collection and the file holding one older event.\<close>

definition old_doc :: event_doc where
  "old_doc =
     \<lparr>doc_id = ''6631ff00'', doc_timestamp = Some 1714534200000,
      doc_timestamp_str = Some ''2024-05-01 09:00:00 IST'',
      doc_device_id = Some (JStr ''esp-1''), doc_detection = Some (JBool False),
      doc_alert_type = Some (JStr ''false alert''), doc_sms_sent = Some (JStr ''No'')\<rparr>"

definition world_mongo :: world where
  "world_mongo =
     \<lparr>TWILIO_AVAILABLE = True, MONGO_AVAILABLE = True,
      csv_file = Some [csv_header,
        [''2024-05-01 09:00:00 IST'', ''False'', ''false alert'', ''esp-1'', ''No'']],
      events_collection = [old_doc], effects = []\<rparr>"

text \<open>MongoDB answering every call with an exception.\<close>

definition env_mongo_down :: env where
  "env_mongo_down = env_ok\<lparr>mongo_insert_id := None, mongo_find_ok := False, mongo_count_ok := False\<rparr>"

text \<open>The file cannot be opened.\<close>

definition env_csv_denied :: env where
  "env_csv_denied = env_ok\<lparr>csv_oserror := Some ''[Errno 13] Permission denied''\<rparr>"



text \<open>The report of a real alert by device \<open>esp-7\<close>.\<close>

definition real_alert_esp7 :: "error + json" where
  "real_alert_esp7 =
     Inr (JObj [(''detect'', JBool True), (''type'', JStr ''real alert''),
                (''device_id'', JStr ''esp-7'')])"

text \<open>
  Text streams with the ASCII codec, as a process started in the C locale can have
  them. Of the text of the exception only the reason is kept.
\<close>

definition ascii_codec :: "string \<Rightarrow> string option" where
  "ascii_codec s =
     (if list_all (\<lambda>c. of_char c < (128 :: nat)) s then None
      else Some ''ordinal not in range(128)'')"

definition env_ascii :: env where
  "env_ascii = env_ok\<lparr>stdout_encode_error := ascii_codec, file_encode_error := ascii_codec\<rparr>"



text \<open>The report of a real alert by a device whose id holds a carriage return.\<close>

definition real_alert_cr :: "error + json" where
  "real_alert_cr =
     Inr (JObj [(''detect'', JBool True), (''type'', JStr ''real alert''),
                (''device_id'', JStr (''a'' @ [CHR 0x0D] @ ''b''))])"

section \<open>Facts about the observations\<close>

lemma gateway_calls_append: "gateway_calls (xs @ ys) = gateway_calls xs @ gateway_calls ys"
  by (induction xs rule: gateway_calls.induct) simp_all

lemma provider_calls_append: "provider_calls (xs @ ys) = provider_calls xs @ provider_calls ys"
  by (induction xs rule: provider_calls.induct) simp_all

lemma store_writes_append: "store_writes (xs @ ys) = store_writes xs @ store_writes ys"
  by (induction xs rule: store_writes.induct) simp_all

lemma printed_append: "printed (xs @ ys) = printed xs @ printed ys"
  by (induction xs rule: printed.induct) simp_all

lemmas log_event_unfold =
  log_event_def send_sms_alert_def mongo_write_def emit_def Let_def

section \<open>What \<open>log_event\<close> does\<close>

text \<open>The world after the notification step of \<open>log_event\<close>.\<close>

lemma send_sms_alert_world:
  "csv_file (snd (send_sms_alert en w device_id alert_type)) = csv_file w"
  "events_collection (snd (send_sms_alert en w device_id alert_type)) = events_collection w"
  "MONGO_AVAILABLE (snd (send_sms_alert en w device_id alert_type)) = MONGO_AVAILABLE w"
  "TWILIO_AVAILABLE (snd (send_sms_alert en w device_id alert_type)) = TWILIO_AVAILABLE w"
  by (simp_all add: send_sms_alert_def emit_def Let_def)

lemma send_sms_alert_effects:
  "gateway_calls (effects (snd (send_sms_alert en w device_id alert_type))) =
     gateway_calls (effects w) @ [(device_id, alert_type)]"
  "provider_calls (effects (snd (send_sms_alert en w device_id alert_type))) =
     provider_calls (effects w) @ (if TWILIO_AVAILABLE w then [(device_id, alert_type)] else [])"
  "store_writes (effects (snd (send_sms_alert en w device_id alert_type))) = store_writes (effects w)"
  by (simp_all add: send_sms_alert_def emit_def Let_def gateway_calls_append provider_calls_append
        store_writes_append)

lemma mongo_write_world:
  "csv_file (mongo_write en w ts i d a s) = csv_file w"
  "MONGO_AVAILABLE (mongo_write en w ts i d a s) = MONGO_AVAILABLE w"
  "TWILIO_AVAILABLE (mongo_write en w ts i d a s) = TWILIO_AVAILABLE w"
  "gateway_calls (effects (mongo_write en w ts i d a s)) = gateway_calls (effects w)"
  "provider_calls (effects (mongo_write en w ts i d a s)) = provider_calls (effects w)"
  "store_writes (effects (mongo_write en w ts i d a s)) =
     store_writes (effects w) @ (if MONGO_AVAILABLE w then [MongoInsertOne] else [])"
  "events_collection (mongo_write en w ts i d a s) =
     events_collection w @
       (if MONGO_AVAILABLE w then
          (case mongo_insert_id en of
             Some oid \<Rightarrow> [new_event_doc en oid ts i d a s]
           | None \<Rightarrow> [])
        else [])"
  by (simp_all add: mongo_write_def emit_def Let_def gateway_calls_append provider_calls_append
        store_writes_append split: option.splits)

lemma mongo_write_insert_fails:
  "MONGO_AVAILABLE w \<Longrightarrow> mongo_insert_id en = None \<Longrightarrow>
   last (effects (mongo_write en w ts i d a s)) = Print MongoSaveError"
  by (simp add: mongo_write_def emit_def Let_def)

lemma after_sms_world:
  "csv_file (after_sms en w d a i) = csv_file w"
  "events_collection (after_sms en w d a i) = events_collection w"
  "MONGO_AVAILABLE (after_sms en w d a i) = MONGO_AVAILABLE w"
  "TWILIO_AVAILABLE (after_sms en w d a i) = TWILIO_AVAILABLE w"
  "gateway_calls (effects (after_sms en w d a i)) =
     gateway_calls (effects w) @
       (if truthy d \<and> a = JStr ''real alert'' then [(i, a)] else [])"
  "provider_calls (effects (after_sms en w d a i)) =
     provider_calls (effects w) @
       (if truthy d \<and> a = JStr ''real alert'' \<and> TWILIO_AVAILABLE w then [(i, a)] else [])"
  "store_writes (effects (after_sms en w d a i)) = store_writes (effects w)"
  by (simp_all add: after_sms_def send_sms_alert_world send_sms_alert_effects)

text \<open>\<open>log_event\<close>, with the row and the outcome named.\<close>

lemma log_event_alt:
  "log_event en w d a i =
     (case csv_oserror en of
        Some msg \<Rightarrow> (Inl (OSError msg), after_sms en w d a i)
      | None \<Rightarrow>
         (case writerow_error en (event_row en w d a i) of
            Some m \<Rightarrow>
              (Inl (UnicodeEncodeError m),
               (after_sms en w d a i)\<lparr>csv_file := Some (file_rows (csv_file w))\<rparr>)
          | None \<Rightarrow>
              (Inr (sms_outcome en w d a i),
               mongo_write en
                 (emit (CsvAppend (event_row en w d a i))
                    ((after_sms en w d a i)
                       \<lparr>csv_file := Some (file_rows (csv_file w) @ [event_row en w d a i])\<rparr>))
                 (now_str en) i d a (sms_outcome en w d a i))))"
proof -
  have pair:
    "(if truthy d \<and> a = JStr ''real alert'' then
        (let (sms_success, w') = send_sms_alert en w i a
         in (if sms_success then ''Yes'' else ''Failed'', w'))
      else (''No'', w)) =
     (sms_outcome en w d a i, after_sms en w d a i)"
    by (simp add: sms_outcome_def after_sms_def case_prod_beta)
  show ?thesis
    unfolding log_event_def pair
    by (simp add: Let_def event_row_def after_sms_world split: option.splits)
qed

lemma log_event_gateway_calls:
  "gateway_calls (effects (snd (log_event en w detection alert_type device_id))) =
     gateway_calls (effects w) @
       (if truthy detection \<and> alert_type = JStr ''real alert'' then [(device_id, alert_type)] else [])"
  by (simp add: log_event_alt after_sms_world mongo_write_world emit_def gateway_calls_append
        split: option.splits)

lemma log_event_provider_calls:
  "provider_calls (effects (snd (log_event en w detection alert_type device_id))) =
     provider_calls (effects w) @
       (if truthy detection \<and> alert_type = JStr ''real alert'' \<and> TWILIO_AVAILABLE w
        then [(device_id, alert_type)] else [])"
  by (simp add: log_event_alt after_sms_world mongo_write_world emit_def provider_calls_append
        split: option.splits)

lemma log_event_world_flags:
  "MONGO_AVAILABLE (snd (log_event en w detection alert_type device_id)) = MONGO_AVAILABLE w \<and>
   TWILIO_AVAILABLE (snd (log_event en w detection alert_type device_id)) = TWILIO_AVAILABLE w"
  by (simp add: log_event_alt after_sms_world mongo_write_world emit_def split: option.splits)

lemma log_event_csv_row:
  "csv_oserror en = None \<Longrightarrow>
   csv_file (snd (log_event en w detection alert_type device_id)) =
     Some (file_rows (csv_file w) @
       (case writerow_error en (event_row en w detection alert_type device_id) of
          None \<Rightarrow> [event_row en w detection alert_type device_id]
        | Some m \<Rightarrow> []))"
  by (simp add: log_event_alt mongo_write_world emit_def split: option.splits)

lemma log_event_returns:
  "csv_oserror en = None \<Longrightarrow>
   fst (log_event en w detection alert_type device_id) =
     (case writerow_error en (event_row en w detection alert_type device_id) of
        None \<Rightarrow> Inr (sms_outcome en w detection alert_type device_id)
      | Some m \<Rightarrow> Inl (UnicodeEncodeError m))"
  by (simp add: log_event_alt split: option.splits)

lemma log_event_raises:
  "csv_oserror en = Some msg \<Longrightarrow>
   fst (log_event en w detection alert_type device_id) = Inl (OSError msg)"
  by (simp add: log_event_alt)

lemma log_event_store_writes:
  "csv_oserror en = None \<Longrightarrow>
   store_writes (effects (snd (log_event en w detection alert_type device_id))) =
     store_writes (effects w) @
       (case writerow_error en (event_row en w detection alert_type device_id) of
          None \<Rightarrow> CsvAppend (event_row en w detection alert_type device_id) #
                    (if MONGO_AVAILABLE w then [MongoInsertOne] else [])
        | Some m \<Rightarrow> [])"
  by (simp add: log_event_alt after_sms_world mongo_write_world emit_def store_writes_append
        split: option.splits)

lemma log_event_insert_fails:
  "csv_oserror en = None \<Longrightarrow>
   writerow_error en (event_row en w detection alert_type device_id) = None \<Longrightarrow>
   MONGO_AVAILABLE w \<Longrightarrow> mongo_insert_id en = None \<Longrightarrow>
   last (effects (snd (log_event en w detection alert_type device_id))) = Print MongoSaveError \<and>
   events_collection (snd (log_event en w detection alert_type device_id)) = events_collection w"
  by (simp add: log_event_alt after_sms_world mongo_write_world mongo_write_insert_fails emit_def)

lemma log_event_events_collection:
  "csv_oserror en = None \<Longrightarrow>
   writerow_error en (event_row en w detection alert_type device_id) = None \<Longrightarrow>
   events_collection (snd (log_event en w detection alert_type device_id)) =
     events_collection w @
       (if MONGO_AVAILABLE w then
          (case mongo_insert_id en of
             Some oid \<Rightarrow> [new_event_doc en oid (now_str en) device_id detection alert_type
                            (sms_outcome en w detection alert_type device_id)]
           | None \<Rightarrow> [])
        else [])"
  by (simp add: log_event_alt after_sms_world mongo_write_world emit_def)

lemma event_row_cells:
  "event_row en w detection alert_type device_id =
     [now_str en, csv_cell en detection, csv_cell en alert_type, csv_cell en device_id,
      (if truthy detection \<and> alert_type = JStr ''real alert''
       then (if fst (send_sms_alert en w device_id alert_type) then ''Yes'' else ''Failed'')
       else ''No'')]"
  by (simp add: event_row_def sms_outcome_def)

section \<open>What \<open>fall_event\<close> does\<close>

lemma send_sms_alert_emit:
  "fst (send_sms_alert en (emit e w) device_id alert_type) = fst (send_sms_alert en w device_id alert_type)"
  by (simp add: send_sms_alert_def emit_def Let_def)

lemma sms_outcome_emit:
  "sms_outcome en (emit e w) detection alert_type device_id =
   sms_outcome en w detection alert_type device_id"
  by (simp add: sms_outcome_def send_sms_alert_emit)

lemma event_row_emit:
  "event_row en (emit e w) detection alert_type device_id =
   event_row en w detection alert_type device_id"
  by (simp add: event_row_def sms_outcome_emit)

lemma csv_file_emit: "csv_file (emit e w) = csv_file w"
  by (simp add: emit_def)

lemma events_collection_emit: "events_collection (emit e w) = events_collection w"
  by (simp add: emit_def)

lemma flags_emit:
  "MONGO_AVAILABLE (emit e w) = MONGO_AVAILABLE w" "TWILIO_AVAILABLE (emit e w) = TWILIO_AVAILABLE w"
  by (simp_all add: emit_def)

lemma fall_event_object_unfold:
  "fall_event en w (Inr (JObj kvs)) =
     (case stdout_encode_error en
             (received_line en (dict_get kvs ''detect'' (JBool False))
                               (dict_get kvs ''type'' (JStr ''unknown''))
                               (dict_get kvs ''device_id'' (JStr ''unknown''))) of
        Some m \<Rightarrow> fall_event_error (UnicodeEncodeError m) w
      | None \<Rightarrow>
         (case log_event en (emit (Print ReceivedFallEvent) w)
                 (dict_get kvs ''detect'' (JBool False))
                 (dict_get kvs ''type'' (JStr ''unknown''))
                 (dict_get kvs ''device_id'' (JStr ''unknown'')) of
            (Inl e, w2) \<Rightarrow> fall_event_error e w2
          | (Inr sms_status, w2) \<Rightarrow>
              (\<lparr>status_code = 200,
                body = JObj [(''status'', JStr ''success''),
                             (''message'', JStr ''Event logged successfully''),
                             (''sms_alert'', JStr sms_status)]\<rparr>, w2)))"
  by (simp add: fall_event_def Let_def)

lemma fall_event_object:
  assumes ok: "csv_oserror en = None" and enc: "encodes_report en w kvs"
  shows "fall_event en w (Inr (JObj kvs)) =
     (\<lparr>status_code = 200,
       body = JObj [(''status'', JStr ''success''),
                    (''message'', JStr ''Event logged successfully''),
                    (''sms_alert'', JStr (sms_outcome en w
                        (dict_get kvs ''detect'' (JBool False))
                        (dict_get kvs ''type'' (JStr ''unknown''))
                        (dict_get kvs ''device_id'' (JStr ''unknown''))))]\<rparr>,
      snd (log_event en (emit (Print ReceivedFallEvent) w)
             (dict_get kvs ''detect'' (JBool False))
             (dict_get kvs ''type'' (JStr ''unknown''))
             (dict_get kvs ''device_id'' (JStr ''unknown''))))"
proof -
  let ?w1 = "emit (Print ReceivedFallEvent) w"
  let ?d = "dict_get kvs ''detect'' (JBool False)"
  let ?a = "dict_get kvs ''type'' (JStr ''unknown'')"
  let ?i = "dict_get kvs ''device_id'' (JStr ''unknown'')"
  from enc have pr: "stdout_encode_error en (received_line en ?d ?a ?i) = None"
    and wr: "writerow_error en (event_row en w ?d ?a ?i) = None"
    by (simp_all add: encodes_report_def)
  obtain r w2 where run: "log_event en ?w1 ?d ?a ?i = (r, w2)"
    by (cases "log_event en ?w1 ?d ?a ?i")
  have "fst (log_event en ?w1 ?d ?a ?i) = Inr (sms_outcome en w ?d ?a ?i)"
    using ok wr by (simp add: log_event_returns sms_outcome_emit event_row_emit)
  with run have r: "r = Inr (sms_outcome en w ?d ?a ?i)"
    by simp
  show ?thesis
    by (simp add: fall_event_object_unfold pr run r)
qed

lemma fall_event_object_rejected:
  assumes enc: "\<not> encodes_report en w kvs"
  shows "status_code (fst (fall_event en w (Inr (JObj kvs)))) = 500 \<and>
         body_field (fst (fall_event en w (Inr (JObj kvs)))) ''status'' = Some (JStr ''error'') \<and>
         file_rows (csv_file (snd (fall_event en w (Inr (JObj kvs))))) = file_rows (csv_file w)"
proof -
  let ?w1 = "emit (Print ReceivedFallEvent) w"
  let ?d = "dict_get kvs ''detect'' (JBool False)"
  let ?a = "dict_get kvs ''type'' (JStr ''unknown'')"
  let ?i = "dict_get kvs ''device_id'' (JStr ''unknown'')"
  show ?thesis
  proof (cases "stdout_encode_error en (received_line en ?d ?a ?i)")
    case (Some m)
    then show ?thesis
      by (simp add: fall_event_object_unfold fall_event_error_def body_field_def csv_file_emit)
  next
    case None
    with enc obtain m where wr: "writerow_error en (event_row en w ?d ?a ?i) = Some m"
      by (auto simp add: encodes_report_def)
    have "log_event en ?w1 ?d ?a ?i =
        (case csv_oserror en of
           Some msg \<Rightarrow> (Inl (OSError msg), after_sms en ?w1 ?d ?a ?i)
         | None \<Rightarrow> (Inl (UnicodeEncodeError m),
                     (after_sms en ?w1 ?d ?a ?i)\<lparr>csv_file := Some (file_rows (csv_file ?w1))\<rparr>))"
      by (simp add: log_event_alt event_row_emit wr split: option.splits)
    with None show ?thesis
      by (simp add: fall_event_object_unfold fall_event_error_def body_field_def csv_file_emit
            after_sms_world file_rows_def split: option.splits)
  qed
qed

lemma fall_event_not_object:
  "\<forall>kvs. data \<noteq> JObj kvs \<Longrightarrow>
   fall_event en w (Inr data) =
     fall_event_error
       (AttributeError ([CHR 0x27] @ type_name data @ [CHR 0x27] @
                        '' object has no attribute '' @ [CHR 0x27] @ ''get'' @ [CHR 0x27])) w"
  by (cases data) (simp_all add: fall_event_def)

lemma fall_event_object_csv_file:
  assumes ok: "csv_oserror en = None" and enc: "encodes_report en w kvs"
  shows "csv_file (snd (fall_event en w (Inr (JObj kvs)))) =
     Some (file_rows (csv_file w) @
       [event_row en w (dict_get kvs ''detect'' (JBool False))
                       (dict_get kvs ''type'' (JStr ''unknown''))
                       (dict_get kvs ''device_id'' (JStr ''unknown''))])"
proof -
  from enc have "writerow_error en
       (event_row en w (dict_get kvs ''detect'' (JBool False))
                       (dict_get kvs ''type'' (JStr ''unknown''))
                       (dict_get kvs ''device_id'' (JStr ''unknown''))) = None"
    by (simp add: encodes_report_def)
  then show ?thesis
    by (simp add: fall_event_object [OF ok enc] log_event_csv_row [OF ok] event_row_emit
          csv_file_emit)
qed

lemma fall_event_200:
  assumes "status_code (fst (fall_event en w request_json)) = 200"
  shows "csv_oserror en = None \<and>
         (\<exists>kvs. request_json = Inr (JObj kvs) \<and> encodes_report en w kvs)"
proof (cases request_json)
  case (Inl e)
  with assms show ?thesis
    by (simp add: fall_event_def fall_event_error_def)
next
  case (Inr data)
  show ?thesis
  proof (cases "\<exists>kvs. data = JObj kvs")
    case False
    with assms Inr show ?thesis
      by (simp add: fall_event_not_object fall_event_error_def)
  next
    case True
    then obtain kvs where data: "data = JObj kvs" by blast
    have enc: "encodes_report en w kvs"
      using assms Inr data fall_event_object_rejected [of en w kvs] by auto
    then have pr: "stdout_encode_error en
             (received_line en (dict_get kvs ''detect'' (JBool False))
                               (dict_get kvs ''type'' (JStr ''unknown''))
                               (dict_get kvs ''device_id'' (JStr ''unknown''))) = None"
      by (simp add: encodes_report_def)
    show ?thesis
    proof (cases "csv_oserror en")
      case None
      with Inr data enc show ?thesis by simp
    next
      case (Some msg)
      let ?run = "log_event en (emit (Print ReceivedFallEvent) w)
                    (dict_get kvs ''detect'' (JBool False))
                    (dict_get kvs ''type'' (JStr ''unknown''))
                    (dict_get kvs ''device_id'' (JStr ''unknown''))"
      obtain r w2 where run: "?run = (r, w2)" by (cases ?run)
      have "fst ?run = Inl (OSError msg)"
        using Some by (rule log_event_raises)
      with run have "r = Inl (OSError msg)" by simp
      with run pr have "status_code (fst (fall_event en w (Inr (JObj kvs)))) = 500"
        by (simp add: fall_event_object_unfold fall_event_error_def)
      with assms Inr data show ?thesis by simp
    qed
  qed
qed

section \<open>C1: when a notification is attempted\<close>

text \<open>
  C1, as the code has it. \<open>log_event\<close> calls the gateway exactly when \<open>detection\<close> is
  true in Python's sense (\<open>truthy\<close>: for a boolean that is \<open>detect == true\<close>) and
  \<open>alert_type\<close> is the string \<open>real alert\<close>; it calls it once, and not at all
  otherwise. When the file can be opened, what is added to it is one row, unless the
  file's codec cannot encode the row, in which case nothing is added; the row carries
  \<open>Yes\<close> when the gateway returned true, \<open>Failed\<close> when it returned false, and
  \<open>No\<close> when it was not called.
\<close>

theorem notification_rule:
  "gateway_calls (effects (snd (log_event en w detection alert_type device_id))) =
     gateway_calls (effects w) @
       (if truthy detection \<and> alert_type = JStr ''real alert'' then [(device_id, alert_type)] else [])
   \<and> (csv_oserror en = None \<longrightarrow>
        csv_file (snd (log_event en w detection alert_type device_id)) =
          Some (file_rows (csv_file w) @
            (case writerow_error en (event_row en w detection alert_type device_id) of
               None \<Rightarrow>
                 [[now_str en, csv_cell en detection, csv_cell en alert_type, csv_cell en device_id,
                   (if truthy detection \<and> alert_type = JStr ''real alert''
                    then (if fst (send_sms_alert en w device_id alert_type) then ''Yes''
                          else ''Failed'')
                    else ''No'')]]
             | Some m \<Rightarrow> [])))"
proof -
  have row:
    "[now_str en, csv_cell en detection, csv_cell en alert_type, csv_cell en device_id,
      (if truthy detection \<and> alert_type = JStr ''real alert''
       then (if fst (send_sms_alert en w device_id alert_type) then ''Yes'' else ''Failed'')
       else ''No'')] =
     event_row en w detection alert_type device_id"
    by (simp add: event_row_cells)
  have written: "csv_oserror en = None \<longrightarrow>
        csv_file (snd (log_event en w detection alert_type device_id)) =
          Some (file_rows (csv_file w) @
            (case writerow_error en (event_row en w detection alert_type device_id) of
               None \<Rightarrow> [event_row en w detection alert_type device_id]
             | Some m \<Rightarrow> []))"
    by (simp add: log_event_csv_row)
  show ?thesis
    unfolding row using written log_event_gateway_calls [of en w detection alert_type device_id]
    by blast
qed

text \<open>
  The rule at a real alert from device \<open>esp-7\<close>, the provider accepting: one gateway
  call, and the row says \<open>Yes\<close>.
\<close>

theorem notification_rule_witness:
  "csv_oserror env_ok = None \<and>
   gateway_calls (effects (snd (log_event env_ok world_csv_only
      (JBool True) (JStr ''real alert'') (JStr ''esp-7'')))) =
     [(JStr ''esp-7'', JStr ''real alert'')] \<and>
   csv_file (snd (log_event env_ok world_csv_only
      (JBool True) (JStr ''real alert'') (JStr ''esp-7''))) =
     Some [csv_header, [''2024-05-01 10:00:00 IST'', ''True'', ''real alert'', ''esp-7'', ''Yes'']]"
  using notification_rule [of env_ok world_csv_only "JBool True" "JStr ''real alert''" "JStr ''esp-7''"]
  by (simp add: env_ok_def world_csv_only_def file_rows_def send_sms_alert_def emit_def
        event_row_def sms_outcome_def writerow_error.simps)

text \<open>
  C1 as stated fails: a report whose \<open>detect\<close> is the string \<open>false\<close> is not
  \<open>detect == true\<close>, yet the string is not empty, so the gateway is called.
\<close>

theorem sms_attempt_for_truthy_string_detect:
  "JStr ''false'' \<noteq> JBool True \<and>
   gateway_calls (effects (snd (fall_event env_ok world_csv_only
      (Inr (JObj [(''detect'', JStr ''false''), (''type'', JStr ''real alert''),
                  (''device_id'', JStr ''esp-7'')]))))) =
     [(JStr ''esp-7'', JStr ''real alert'')]"
  by (simp add: fall_event_def dict_get_def log_event_unfold env_ok_def world_csv_only_def
        file_rows_def writerow_error.simps)

section \<open>C2: the file is written first, whatever MongoDB does\<close>

text \<open>
  C2. Whenever the file can be opened, and whatever the state of MongoDB (\<open>w\<close> and
  \<open>en\<close> are arbitrary: available or not, \<^verbatim>\<open>insert_one\<close> returning or raising):
  the first store write of \<open>log_event\<close> is the row appended to the file, and the
  call of \<^verbatim>\<open>insert_one\<close>, made only when MongoDB is marked available, comes after
  it; the file ends with the new row; \<open>log_event\<close> returns the notification outcome;
  an \<^verbatim>\<open>insert_one\<close> that raises is caught and its error printed, as the last thing
  the function does; and \<^verbatim>\<open>POST /fall_event\<close> answers 200 with status
  \<open>success\<close>. The one case apart is a report whose text a codec cannot encode: then
  no store is written, \<open>log_event\<close> raises the codec's error and the answer is 500,
  again whatever the state of MongoDB.
\<close>

theorem fallback_write_first_primary_failure_swallowed:
  "csv_oserror en = None \<Longrightarrow>
   store_writes (effects (snd (log_event en w detection alert_type device_id))) =
     store_writes (effects w) @
       (case writerow_error en (event_row en w detection alert_type device_id) of
          None \<Rightarrow> CsvAppend (event_row en w detection alert_type device_id) #
                    (if MONGO_AVAILABLE w then [MongoInsertOne] else [])
        | Some m \<Rightarrow> [])
   \<and> csv_file (snd (log_event en w detection alert_type device_id)) =
       Some (file_rows (csv_file w) @
         (case writerow_error en (event_row en w detection alert_type device_id) of
            None \<Rightarrow> [event_row en w detection alert_type device_id]
          | Some m \<Rightarrow> []))
   \<and> fst (log_event en w detection alert_type device_id) =
       (case writerow_error en (event_row en w detection alert_type device_id) of
          None \<Rightarrow> Inr (sms_outcome en w detection alert_type device_id)
        | Some m \<Rightarrow> Inl (UnicodeEncodeError m))
   \<and> (MONGO_AVAILABLE w \<and> mongo_insert_id en = None \<and>
      writerow_error en (event_row en w detection alert_type device_id) = None \<longrightarrow>
        last (effects (snd (log_event en w detection alert_type device_id))) = Print MongoSaveError)
   \<and> status_code (fst (fall_event en w (Inr (JObj kvs)))) =
       (if encodes_report en w kvs then 200 else 500)
   \<and> body_field (fst (fall_event en w (Inr (JObj kvs)))) ''status'' =
       Some (JStr (if encodes_report en w kvs then ''success'' else ''error''))"
proof -
  assume ok: "csv_oserror en = None"
  have resp: "status_code (fst (fall_event en w (Inr (JObj kvs)))) =
       (if encodes_report en w kvs then 200 else 500)
   \<and> body_field (fst (fall_event en w (Inr (JObj kvs)))) ''status'' =
       Some (JStr (if encodes_report en w kvs then ''success'' else ''error''))"
  proof (cases "encodes_report en w kvs")
    case True
    then show ?thesis
      by (simp add: fall_event_object [OF ok True] body_field_def)
  next
    case False
    then show ?thesis
      using fall_event_object_rejected [OF False] by simp
  qed
  from ok resp show ?thesis
    by (simp add: log_event_store_writes log_event_csv_row log_event_returns
          log_event_insert_fails)
qed

text \<open>
  C2 at a real alert while \<^verbatim>\<open>insert_one\<close> raises: the row is written, then the
  insert is tried, its error is printed, and the answer is 200.
\<close>

theorem fallback_write_first_primary_failure_swallowed_witness:
  "csv_oserror (env_ok\<lparr>mongo_insert_id := None\<rparr>) = None \<and>
   store_writes (effects (snd (log_event (env_ok\<lparr>mongo_insert_id := None\<rparr>) world_mongo
      (JBool True) (JStr ''real alert'') (JStr ''esp-7'')))) =
     [CsvAppend [''2024-05-01 10:00:00 IST'', ''True'', ''real alert'', ''esp-7'', ''Yes''],
      MongoInsertOne] \<and>
   fst (log_event (env_ok\<lparr>mongo_insert_id := None\<rparr>) world_mongo
      (JBool True) (JStr ''real alert'') (JStr ''esp-7'')) = Inr ''Yes'' \<and>
   last (effects (snd (log_event (env_ok\<lparr>mongo_insert_id := None\<rparr>) world_mongo
      (JBool True) (JStr ''real alert'') (JStr ''esp-7'')))) = Print MongoSaveError \<and>
   status_code (fst (fall_event (env_ok\<lparr>mongo_insert_id := None\<rparr>) world_mongo
      (Inr (JObj [(''detect'', JBool True), (''type'', JStr ''real alert''),
                  (''device_id'', JStr ''esp-7'')])))) = 200"
  using fallback_write_first_primary_failure_swallowed
    [of "env_ok\<lparr>mongo_insert_id := None\<rparr>" world_mongo "JBool True" "JStr ''real alert''"
        "JStr ''esp-7''"
        "[(''detect'', JBool True), (''type'', JStr ''real alert''), (''device_id'', JStr ''esp-7'')]"]
  by (simp add: env_ok_def world_mongo_def event_row_def sms_outcome_def send_sms_alert_def
        emit_def encodes_report_def writerow_error.simps)

section \<open>Reading the file\<close>

lemma events_from_csv_emit: "events_from_csv en (emit e w) = events_from_csv en w"
  by (simp add: events_from_csv_def get_events_from_csv_def emit_def)

lemma events_from_csv_flag:
  "events_from_csv en (w\<lparr>MONGO_AVAILABLE := b\<rparr>) = events_from_csv en w"
  by (simp add: events_from_csv_def get_events_from_csv_def)

lemma csv_record_count_flag:
  "csv_record_count en (w\<lparr>MONGO_AVAILABLE := b\<rparr>) = csv_record_count en w"
  by (simp add: csv_record_count_def)

lemma get_events_from_csv_rows:
  "csv_oserror en = None \<Longrightarrow> csv_file w = Some (header # rest) \<Longrightarrow>
   \<not> list_ex field_too_large (header # rest) \<Longrightarrow>
   get_events_from_csv en w =
     Inr (map add_missing_columns (take 20 (rev (map (map universal_newlines) rest))))"
  by (simp add: get_events_from_csv_def)

section \<open>C3: which exceptions leave a store operation\<close>

text \<open>
  C3, as the code has it. Exceptions of MongoDB are caught inside the operation and
  downgrade it to the file: \<open>log_event\<close> raises only what the file raises, the
  error of opening it or the error of encoding the row, and otherwise returns the
  notification outcome; a \<^verbatim>\<open>find\<close> that raises makes \<^verbatim>\<open>/events\<close> answer what it
  answers without MongoDB, and a \<^verbatim>\<open>count_documents\<close> that raises makes
  \<^verbatim>\<open>/status\<close> count the lines of the file. The file's own exceptions are not caught
  by the store. The reader returns whenever the file can be opened, is not empty and
  has no field over the size limit of the csv module, and the count whenever the file
  can be opened.
\<close>

theorem only_fallback_file_errors_reach_the_caller:
  "fst (log_event en w detection alert_type device_id) =
     (case csv_oserror en of
        None \<Rightarrow>
          (case writerow_error en (event_row en w detection alert_type device_id) of
             None \<Rightarrow> Inr (sms_outcome en w detection alert_type device_id)
           | Some m \<Rightarrow> Inl (UnicodeEncodeError m))
      | Some msg \<Rightarrow> Inl (OSError msg))
   \<and> (MONGO_AVAILABLE w \<and> \<not> mongo_find_ok en \<longrightarrow>
        fst (events en w) = fst (events en (w\<lparr>MONGO_AVAILABLE := False\<rparr>)))
   \<and> (MONGO_AVAILABLE w \<and> \<not> mongo_count_ok en \<longrightarrow>
        map_sum id (\<lambda>r. body_field r ''records_count'') (api_status en w) =
        map_sum id (\<lambda>r. body_field r ''records_count'') (api_status en (w\<lparr>MONGO_AVAILABLE := False\<rparr>)))
   \<and> (csv_oserror en = None \<and> csv_file w \<noteq> Some [] \<and>
      \<not> list_ex field_too_large (file_rows (csv_file w)) \<longrightarrow>
        get_events_from_csv en w =
          Inr (map add_missing_columns
                 (take 20 (rev (map (map universal_newlines) (tl (file_rows (csv_file w))))))))
   \<and> (csv_oserror en = None \<longrightarrow>
        (\<exists>r. api_status en w = Inr r))"
proof -
  have a: "fst (log_event en w detection alert_type device_id) =
     (case csv_oserror en of
        None \<Rightarrow>
          (case writerow_error en (event_row en w detection alert_type device_id) of
             None \<Rightarrow> Inr (sms_outcome en w detection alert_type device_id)
           | Some m \<Rightarrow> Inl (UnicodeEncodeError m))
      | Some msg \<Rightarrow> Inl (OSError msg))"
    by (cases "csv_oserror en") (simp_all add: log_event_returns log_event_raises)
  have b: "MONGO_AVAILABLE w \<and> \<not> mongo_find_ok en \<longrightarrow>
        fst (events en w) = fst (events en (w\<lparr>MONGO_AVAILABLE := False\<rparr>))"
    by (simp add: events_def Let_def events_from_csv_emit events_from_csv_flag)
  have c: "MONGO_AVAILABLE w \<and> \<not> mongo_count_ok en \<longrightarrow>
        map_sum id (\<lambda>r. body_field r ''records_count'') (api_status en w) =
        map_sum id (\<lambda>r. body_field r ''records_count'') (api_status en (w\<lparr>MONGO_AVAILABLE := False\<rparr>))"
    by (simp add: api_status_def csv_record_count_flag body_field_def split: sum.splits)
  have d: "csv_oserror en = None \<and> csv_file w \<noteq> Some [] \<and>
      \<not> list_ex field_too_large (file_rows (csv_file w)) \<longrightarrow>
        get_events_from_csv en w =
          Inr (map add_missing_columns
                 (take 20 (rev (map (map universal_newlines) (tl (file_rows (csv_file w)))))))"
    by (simp add: get_events_from_csv_def file_rows_def split: option.splits list.splits)
  have e: "csv_oserror en = None \<longrightarrow> (\<exists>r. api_status en w = Inr r)"
    by (simp add: api_status_def csv_record_count_def split: option.splits)
  from a b c d e show ?thesis by blast
qed

text \<open>
  C3 with MongoDB marked available and raising at every call: the write returns
  \<open>No\<close>, the list and the count come from the file.
\<close>

theorem only_fallback_file_errors_reach_the_caller_witness:
  "fst (log_event env_mongo_down world_mongo (JBool False) (JStr ''false alert'') (JStr ''esp-7'')) =
     Inr ''No'' \<and>
   fst (events env_mongo_down world_mongo) =
     \<lparr>status_code = 200,
      body = JArr [JObj [(''timestamp'', JStr ''2024-05-01 09:00:00 IST''),
                         (''detection'', JStr ''False''),
                         (''alert_type'', JStr ''false alert''),
                         (''device_id'', JStr ''esp-1''),
                         (''sms_sent'', JStr ''No'')]]\<rparr> \<and>
   map_sum id (\<lambda>r. body_field r ''records_count'') (api_status env_mongo_down world_mongo) =
     Inr (Some (JInt 1)) \<and>
   get_events_from_csv env_mongo_down world_mongo =
     Inr [[''2024-05-01 09:00:00 IST'', ''False'', ''false alert'', ''esp-1'', ''No'']]"
  using only_fallback_file_errors_reach_the_caller
    [of env_mongo_down world_mongo "JBool False" "JStr ''false alert''" "JStr ''esp-7''"]
  by (simp add: env_mongo_down_def env_ok_def world_mongo_def sms_outcome_def event_row_def
        writerow_error.simps events_def
        events_from_csv_def get_events_from_csv_def add_missing_columns_def csv_event_dict_def
        api_status_def csv_record_count_def file_lines_def body_field_def file_rows_def
        field_too_large_def field_size_limit_def csv_header_def)

text \<open>
  C3 as stated fails: reading a file that exists and is empty raises
  \<^verbatim>\<open>StopIteration\<close> (from \<^verbatim>\<open>next(reader)\<close>), and a file that cannot be opened
  makes the write, the reader and the count raise \<^verbatim>\<open>OSError\<close> to their callers.
\<close>

theorem fallback_file_errors_are_raised:
  "get_events_from_csv env_ok (world_csv_only\<lparr>csv_file := Some []\<rparr>) = Inl StopIteration \<and>
   fst (log_event env_csv_denied world_csv_only (JBool False) (JStr ''unknown'') (JStr ''unknown'')) =
     Inl (OSError ''[Errno 13] Permission denied'') \<and>
   get_events_from_csv env_csv_denied world_csv_only =
     Inl (OSError ''[Errno 13] Permission denied'') \<and>
   api_status env_csv_denied world_csv_only = Inl (OSError ''[Errno 13] Permission denied'')"
  by (simp add: get_events_from_csv_def log_event_unfold api_status_def csv_record_count_def
        env_csv_denied_def env_ok_def world_csv_only_def)

section \<open>C4: what is recorded when the gateway is unavailable\<close>

text \<open>
  C4, as the code has it. For a report that asks for a notification, whenever the
  gateway returns false the outcome is \<open>Failed\<close>: both when Twilio failed to
  initialise (the provider is not contacted) and when the provider was contacted and
  raised. With a file that can be opened, the row that says \<open>Failed\<close> is what is
  added to the file and \<open>Failed\<close> is returned, unless the file's codec cannot
  encode the row, in which case nothing is added and the codec's error is raised.
\<close>

theorem gateway_unavailable_is_recorded_as_failed:
  "truthy detection \<Longrightarrow> alert_type = JStr ''real alert'' \<Longrightarrow> csv_oserror en = None \<Longrightarrow>
   \<not> (TWILIO_AVAILABLE w \<and> twilio_accepts en) \<Longrightarrow>
   csv_file (snd (log_event en w detection alert_type device_id)) =
     Some (file_rows (csv_file w) @
       (case writerow_error en
               [now_str en, csv_cell en detection, ''real alert'', csv_cell en device_id, ''Failed''] of
          None \<Rightarrow>
            [[now_str en, csv_cell en detection, ''real alert'', csv_cell en device_id, ''Failed'']]
        | Some m \<Rightarrow> []))
   \<and> fst (log_event en w detection alert_type device_id) =
       (case writerow_error en
               [now_str en, csv_cell en detection, ''real alert'', csv_cell en device_id, ''Failed''] of
          None \<Rightarrow> Inr ''Failed''
        | Some m \<Rightarrow> Inl (UnicodeEncodeError m))
   \<and> provider_calls (effects (snd (log_event en w detection alert_type device_id))) =
       provider_calls (effects w) @ (if TWILIO_AVAILABLE w then [(device_id, alert_type)] else [])"
proof -
  assume t: "truthy detection" and a: "alert_type = JStr ''real alert''"
    and ok: "csv_oserror en = None" and f: "\<not> (TWILIO_AVAILABLE w \<and> twilio_accepts en)"
  from f have "fst (send_sms_alert en w device_id alert_type) = False"
    by (auto simp add: send_sms_alert_def emit_def Let_def)
  with t a have out: "sms_outcome en w detection (JStr ''real alert'') device_id = ''Failed''"
    by (simp add: sms_outcome_def)
  then have row: "event_row en w detection (JStr ''real alert'') device_id =
      [now_str en, csv_cell en detection, ''real alert'', csv_cell en device_id, ''Failed'']"
    by (simp add: event_row_def)
  from t a show ?thesis
    by (simp add: log_event_csv_row [OF ok] log_event_returns [OF ok] log_event_provider_calls
          row out cong: option.case_cong)
qed

text \<open>C4's amended rule at a real alert with Twilio unavailable.\<close>

theorem gateway_unavailable_is_recorded_as_failed_witness:
  "truthy (JBool True) \<and> csv_oserror env_ok = None \<and>
   \<not> (TWILIO_AVAILABLE (world_csv_only\<lparr>TWILIO_AVAILABLE := False\<rparr>) \<and> twilio_accepts env_ok) \<and>
   fst (log_event env_ok (world_csv_only\<lparr>TWILIO_AVAILABLE := False\<rparr>)
          (JBool True) (JStr ''real alert'') (JStr ''esp-7'')) = Inr ''Failed'' \<and>
   provider_calls (effects (snd (log_event env_ok (world_csv_only\<lparr>TWILIO_AVAILABLE := False\<rparr>)
          (JBool True) (JStr ''real alert'') (JStr ''esp-7'')))) = []"
  using gateway_unavailable_is_recorded_as_failed
    [of "JBool True" "JStr ''real alert''" env_ok "world_csv_only\<lparr>TWILIO_AVAILABLE := False\<rparr>"
        "JStr ''esp-7''"]
  by (simp add: env_ok_def world_csv_only_def writerow_error.simps)

text \<open>
  C4 as stated fails: with Twilio unavailable the provider is never contacted, and the
  row written for a real alert says \<open>Failed\<close>, not \<open>No\<close>.
\<close>

theorem failed_written_when_gateway_unavailable:
  "csv_file (snd (log_event env_ok (world_csv_only\<lparr>TWILIO_AVAILABLE := False\<rparr>)
          (JBool True) (JStr ''real alert'') (JStr ''esp-7''))) =
     Some [csv_header, [''2024-05-01 10:00:00 IST'', ''True'', ''real alert'', ''esp-7'', ''Failed'']]
   \<and> ''Failed'' \<noteq> ''No''
   \<and> provider_calls (effects (snd (log_event env_ok (world_csv_only\<lparr>TWILIO_AVAILABLE := False\<rparr>)
          (JBool True) (JStr ''real alert'') (JStr ''esp-7'')))) = []"
  by (simp add: log_event_unfold env_ok_def world_csv_only_def file_rows_def writerow_error.simps)

section \<open>The sample surroundings encode every text\<close>

lemma writerow_error_none:
  "\<forall>s. file_encode_error en s = None \<Longrightarrow> writerow_error en row = None"
  by (induction row) (simp_all add: writerow_error.simps)

lemma writerow_error_env_ok: "writerow_error env_ok row = None"
  by (rule writerow_error_none) (simp add: env_ok_def)

lemma encodes_report_env_ok: "encodes_report env_ok w kvs"
  by (simp add: encodes_report_def writerow_error_env_ok) (simp add: env_ok_def)

lemma writerow_error_env_ok_insert: "writerow_error (env_ok\<lparr>mongo_insert_id := x\<rparr>) row = None"
  by (rule writerow_error_none) (simp add: env_ok_def)

lemma writerow_error_env_mongo_down: "writerow_error env_mongo_down row = None"
  by (rule writerow_error_none) (simp add: env_mongo_down_def env_ok_def)

lemma encodes_report_env_ok_insert: "encodes_report (env_ok\<lparr>mongo_insert_id := x\<rparr>) w kvs"
  by (simp add: encodes_report_def writerow_error_env_ok_insert) (simp add: env_ok_def)

lemma encodes_report_env_mongo_down: "encodes_report env_mongo_down w kvs"
  by (simp add: encodes_report_def writerow_error_env_mongo_down)
     (simp add: env_mongo_down_def env_ok_def)

section \<open>C5: defaults for the fields of a report\<close>

text \<open>
  C5, as the code has it. For a payload that is a JSON object, a file that can be
  opened, and fields whose text the codecs of the output and of the file can encode,
  \<^verbatim>\<open>POST /fall_event\<close> answers 200 and appends one row, made from the three fields
  read with \<^verbatim>\<open>data.get\<close>: a key that is absent gives its default (\<open>False\<close>,
  \<open>unknown\<close>, \<open>unknown\<close>), a key that is present gives its value as it is, of
  whatever JSON type. With all three keys absent the row is the timestamp,
  \<open>False\<close>, \<open>unknown\<close>, \<open>unknown\<close>, \<open>No\<close>. An object with a field whose text
  cannot be encoded is answered with 500 and no row is added. A payload that is not an
  object, or a body Flask cannot parse, is answered with 500 and nothing is written to
  the file.
\<close>

theorem absent_fields_defaulted_present_fields_kept:
  "(csv_oserror en = None \<and> encodes_report en w kvs \<longrightarrow>
      status_code (fst (fall_event en w (Inr (JObj kvs)))) = 200 \<and>
      csv_file (snd (fall_event en w (Inr (JObj kvs)))) =
        Some (file_rows (csv_file w) @
          [event_row en w
             (case map_of kvs ''detect'' of None \<Rightarrow> JBool False | Some v \<Rightarrow> v)
             (case map_of kvs ''type'' of None \<Rightarrow> JStr ''unknown'' | Some v \<Rightarrow> v)
             (case map_of kvs ''device_id'' of None \<Rightarrow> JStr ''unknown'' | Some v \<Rightarrow> v)]))
   \<and> (csv_oserror en = None \<and> encodes_report en w kvs \<and>
        map_of kvs ''detect'' = None \<and> map_of kvs ''type'' = None \<and>
        map_of kvs ''device_id'' = None \<longrightarrow>
      csv_file (snd (fall_event en w (Inr (JObj kvs)))) =
        Some (file_rows (csv_file w) @ [[now_str en, ''False'', ''unknown'', ''unknown'', ''No'']]))
   \<and> (\<not> encodes_report en w kvs \<longrightarrow>
        status_code (fst (fall_event en w (Inr (JObj kvs)))) = 500 \<and>
        file_rows (csv_file (snd (fall_event en w (Inr (JObj kvs))))) = file_rows (csv_file w))
   \<and> ((\<forall>kvs'. data \<noteq> JObj kvs') \<longrightarrow>
        status_code (fst (fall_event en w (Inr data))) = 500 \<and>
        csv_file (snd (fall_event en w (Inr data))) = csv_file w)
   \<and> status_code (fst (fall_event en w (Inl e))) = 500
   \<and> csv_file (snd (fall_event en w (Inl e))) = csv_file w"
proof -
  have a: "csv_oserror en = None \<and> encodes_report en w kvs \<longrightarrow>
      status_code (fst (fall_event en w (Inr (JObj kvs)))) = 200 \<and>
      csv_file (snd (fall_event en w (Inr (JObj kvs)))) =
        Some (file_rows (csv_file w) @
          [event_row en w
             (case map_of kvs ''detect'' of None \<Rightarrow> JBool False | Some v \<Rightarrow> v)
             (case map_of kvs ''type'' of None \<Rightarrow> JStr ''unknown'' | Some v \<Rightarrow> v)
             (case map_of kvs ''device_id'' of None \<Rightarrow> JStr ''unknown'' | Some v \<Rightarrow> v)])"
    using fall_event_object_csv_file [of en w kvs] fall_event_object [of en w kvs]
    by (simp add: dict_get_def)
  have b: "csv_oserror en = None \<and> encodes_report en w kvs \<and>
        map_of kvs ''detect'' = None \<and> map_of kvs ''type'' = None \<and>
        map_of kvs ''device_id'' = None \<longrightarrow>
      csv_file (snd (fall_event en w (Inr (JObj kvs)))) =
        Some (file_rows (csv_file w) @ [[now_str en, ''False'', ''unknown'', ''unknown'', ''No'']])"
    using fall_event_object_csv_file [of en w kvs]
    by (simp add: dict_get_def event_row_def sms_outcome_def)
  have r: "\<not> encodes_report en w kvs \<longrightarrow>
        status_code (fst (fall_event en w (Inr (JObj kvs)))) = 500 \<and>
        file_rows (csv_file (snd (fall_event en w (Inr (JObj kvs))))) = file_rows (csv_file w)"
    using fall_event_object_rejected [of en w kvs] by simp
  have c: "(\<forall>kvs'. data \<noteq> JObj kvs') \<longrightarrow>
        status_code (fst (fall_event en w (Inr data))) = 500 \<and>
        csv_file (snd (fall_event en w (Inr data))) = csv_file w"
    by (simp add: fall_event_not_object fall_event_error_def csv_file_emit)
  have d: "status_code (fst (fall_event en w (Inl e))) = 500 \<and>
     csv_file (snd (fall_event en w (Inl e))) = csv_file w"
    by (simp add: fall_event_def fall_event_error_def csv_file_emit)
  from a b r c d show ?thesis by blast
qed

text \<open>
  C5's amended rule at the report \<^verbatim>\<open>{"detect": false}\<close> and at the payload
  \<^verbatim>\<open>[]\<close>, and, with ASCII streams, at a device id that holds the letter e with an
  acute accent.
\<close>

theorem absent_fields_defaulted_present_fields_kept_witness:
  "csv_oserror env_ok = None \<and>
   encodes_report env_ok world_csv_only [(''detect'', JBool False)] \<and>
   map_of [(''detect'', JBool False)] ''type'' = None \<and>
   status_code (fst (fall_event env_ok world_csv_only (Inr (JObj [(''detect'', JBool False)])))) = 200 \<and>
   csv_file (snd (fall_event env_ok world_csv_only (Inr (JObj [(''detect'', JBool False)])))) =
     Some [csv_header, [''2024-05-01 10:00:00 IST'', ''False'', ''unknown'', ''unknown'', ''No'']] \<and>
   status_code (fst (fall_event env_ok world_csv_only (Inr (JArr [])))) = 500 \<and>
   csv_file (snd (fall_event env_ok world_csv_only (Inr (JArr [])))) = Some [csv_header] \<and>
   \<not> encodes_report env_ascii world_csv_only [(''device_id'', JStr (''caf'' @ [CHR 0xE9]))] \<and>
   status_code (fst (fall_event env_ascii world_csv_only
      (Inr (JObj [(''device_id'', JStr (''caf'' @ [CHR 0xE9]))])))) = 500 \<and>
   file_rows (csv_file (snd (fall_event env_ascii world_csv_only
      (Inr (JObj [(''device_id'', JStr (''caf'' @ [CHR 0xE9]))]))))) = [csv_header]"
proof -
  have enc: "encodes_report env_ok world_csv_only [(''detect'', JBool False)]"
    by (rule encodes_report_env_ok)
  have nenc: "\<not> encodes_report env_ascii world_csv_only [(''device_id'', JStr (''caf'' @ [CHR 0xE9]))]"
    by (simp add: encodes_report_def env_ascii_def env_ok_def ascii_codec_def received_line_def
          dict_get_def)
  have ok: "csv_oserror env_ok = None"
    by (simp add: env_ok_def)
  have absent: "map_of [(''detect'', JBool False)] ''type'' = None"
    by simp
  have no_obj: "\<forall>kvs'. JArr [] \<noteq> JObj kvs'"
    by simp
  have row: "event_row env_ok world_csv_only (JBool False) (JStr ''unknown'') (JStr ''unknown'') =
      [''2024-05-01 10:00:00 IST'', ''False'', ''unknown'', ''unknown'', ''No'']"
    by (simp add: event_row_def sms_outcome_def env_ok_def)
  have rows: "file_rows (csv_file world_csv_only) = [csv_header]"
    "csv_file world_csv_only = Some [csv_header]"
    by (simp_all add: world_csv_only_def file_rows_def)
  from absent_fields_defaulted_present_fields_kept
         [of env_ok world_csv_only "[(''detect'', JBool False)]" "JArr []"] ok enc no_obj
  have p: "status_code (fst (fall_event env_ok world_csv_only
                (Inr (JObj [(''detect'', JBool False)])))) = 200 \<and>
     csv_file (snd (fall_event env_ok world_csv_only (Inr (JObj [(''detect'', JBool False)])))) =
       Some [csv_header, [''2024-05-01 10:00:00 IST'', ''False'', ''unknown'', ''unknown'', ''No'']] \<and>
     status_code (fst (fall_event env_ok world_csv_only (Inr (JArr [])))) = 500 \<and>
     csv_file (snd (fall_event env_ok world_csv_only (Inr (JArr [])))) = Some [csv_header]"
    by (simp add: row rows file_rows_def)
  from absent_fields_defaulted_present_fields_kept
         [of env_ascii world_csv_only "[(''device_id'', JStr (''caf'' @ [CHR 0xE9]))]" "JArr []"]
       nenc
  have q: "status_code (fst (fall_event env_ascii world_csv_only
      (Inr (JObj [(''device_id'', JStr (''caf'' @ [CHR 0xE9]))])))) = 500 \<and>
   file_rows (csv_file (snd (fall_event env_ascii world_csv_only
      (Inr (JObj [(''device_id'', JStr (''caf'' @ [CHR 0xE9]))]))))) = [csv_header]"
    by (simp add: rows file_rows_def)
  from ok enc absent nenc p q show ?thesis
    by blast
qed

text \<open>
  C5 as stated fails: a \<open>device_id\<close> that is present but \<^verbatim>\<open>null\<close> is not
  replaced by \<open>unknown\<close> (the row gets the empty field); the payload \<^verbatim>\<open>[]\<close> is
  rejected with 500 and not logged; and so is, by a process whose streams have the
  ASCII codec, a report whose device id holds a letter outside ASCII.
\<close>

theorem present_field_not_defaulted_bad_payload_rejected:
  "csv_file (snd (fall_event env_ok world_csv_only (Inr (JObj [(''device_id'', JNull)])))) =
     Some [csv_header, [''2024-05-01 10:00:00 IST'', ''False'', ''unknown'', [], ''No'']]
   \<and> [] \<noteq> ''unknown''
   \<and> fst (fall_event env_ok world_csv_only (Inr (JArr []))) =
       \<lparr>status_code = 500,
        body = JObj [(''status'', JStr ''error''),
                     (''message'', JStr (CHR 0x27 # ''list'' @ CHR 0x27 # '' object has no attribute '' @
                                          CHR 0x27 # ''get'' @ [CHR 0x27]))]\<rparr>
   \<and> csv_file (snd (fall_event env_ok world_csv_only (Inr (JArr [])))) = Some [csv_header]
   \<and> status_code (fst (fall_event env_ascii world_csv_only
        (Inr (JObj [(''device_id'', JStr (''caf'' @ [CHR 0xE9]))])))) = 500
   \<and> body_field (fst (fall_event env_ascii world_csv_only
        (Inr (JObj [(''device_id'', JStr (''caf'' @ [CHR 0xE9]))])))) ''status'' =
       Some (JStr ''error'')
   \<and> csv_file (snd (fall_event env_ascii world_csv_only
        (Inr (JObj [(''device_id'', JStr (''caf'' @ [CHR 0xE9]))])))) = Some [csv_header]"
  by (simp add: fall_event_def fall_event_error_def dict_get_def log_event_unfold env_ok_def
        env_ascii_def ascii_codec_def received_line_def body_field_def
        world_csv_only_def file_rows_def writerow_error.simps)

section \<open>What the reader gets back from a written field\<close>

lemma universal_newlines_id:
  "CHR 0x0D \<notin> set s \<Longrightarrow> universal_newlines s = s"
  by (induction s) auto

lemma universal_newlines_replicate:
  "c \<noteq> CHR 0x0D \<Longrightarrow> universal_newlines (replicate n c) = replicate n c"
  by (rule universal_newlines_id) simp

lemma field_too_large_row:
  "field_size_limit < length (universal_newlines c) \<Longrightarrow> c \<in> set row \<Longrightarrow> field_too_large row"
  by (auto simp add: field_too_large_def list_ex_iff)

lemma get_events_from_csv_too_large:
  "csv_oserror en = None \<Longrightarrow> csv_file w = Some rows \<Longrightarrow> row \<in> set rows \<Longrightarrow>
   field_too_large row \<Longrightarrow>
   get_events_from_csv en w = Inl (CsvError ''field larger than field limit (131072)'')"
  by (cases rows) (auto simp add: get_events_from_csv_def list_ex_iff)

lemma add_missing_columns_cases:
  "add_missing_columns event =
     (if length event < 3 then event @ [''unknown'', ''No'']
      else if length event = 3 then event @ [''unknown'', ''No'']
      else if length event = 4 then event @ [''No'']
      else event)"
  by (auto simp add: add_missing_columns_def Let_def)

text \<open>
  A device id of 131073 characters is written by \<open>log_event\<close> and makes the reader
  raise afterwards.
\<close>

lemma oversized_device_id_read_raises:
  "get_events_from_csv env_ok
     (snd (log_event env_ok world_csv_only (JBool True) (JStr ''real alert'')
             (JStr (replicate 131073 (CHR ''a''))))) =
   Inl (CsvError ''field larger than field limit (131072)'')"
proof -
  let ?big = "replicate 131073 (CHR ''a'')"
  let ?w' = "snd (log_event env_ok world_csv_only (JBool True) (JStr ''real alert'') (JStr ?big))"
  let ?row = "event_row env_ok world_csv_only (JBool True) (JStr ''real alert'') (JStr ?big)"
  have ok: "csv_oserror env_ok = None"
    by (simp add: env_ok_def)
  have "csv_file ?w' = Some (file_rows (csv_file world_csv_only) @ [?row])"
    by (simp only: log_event_csv_row [OF ok] writerow_error_env_ok option.case)
  then have written: "csv_file ?w' = Some ([csv_header] @ [?row])"
    by (simp only: world_csv_only_def file_rows_def world.simps option.case)
  have "CHR ''a'' \<noteq> CHR 0x0D"
    by simp
  then have "universal_newlines ?big = ?big"
    by (rule universal_newlines_replicate)
  then have "length (universal_newlines ?big) = 131073"
    by (simp only: length_replicate)
  then have "field_size_limit < length (universal_newlines ?big)"
    by (simp only: field_size_limit_def)
  moreover have "?big \<in> set ?row"
    unfolding event_row_def csv_cell.simps by (simp only: list.set insert_iff simp_thms)
  ultimately have "field_too_large ?row"
    by (rule field_too_large_row)
  moreover have "?row \<in> set ([csv_header] @ [?row])"
    by simp
  ultimately show ?thesis
    using ok written by (blast intro: get_events_from_csv_too_large)
qed

section \<open>C6: rows of the older file format\<close>

text \<open>
  C6, as the code has it. A row that has at least the three fields of the older
  format (timestamp, detection, alert type) is completed at its end: with
  \<open>unknown\<close> and \<open>No\<close> when it has three fields, with \<open>No\<close> when it has four,
  and it is left as it is when it has five or more; the result has at least five
  fields and starts with the row as it was read. For a file that can be opened, has a
  first line and holds no field over the size limit of the csv module, the reader
  raises nothing and rejects no row: it returns the last twenty rows as the csv
  module reads them, newest first, each completed so.
\<close>

theorem legacy_rows_completed:
  "(3 \<le> length event \<longrightarrow>
      add_missing_columns event =
        (if length event = 3 then event @ [''unknown'', ''No'']
         else if length event = 4 then event @ [''No'']
         else event)
      \<and> 5 \<le> length (add_missing_columns event)
      \<and> take (length event) (add_missing_columns event) = event)
   \<and> (csv_oserror en = None \<and> csv_file w = Some (header # rest) \<and>
      \<not> list_ex field_too_large (header # rest) \<longrightarrow>
        get_events_from_csv en w =
          Inr (map add_missing_columns (take 20 (rev (map (map universal_newlines) rest)))))"
  by (simp add: add_missing_columns_cases get_events_from_csv_rows)

text \<open>C6's amended rule at a row of three fields.\<close>

theorem legacy_rows_completed_witness:
  "3 \<le> length [''2023-11-02 08:15:00 IST'', ''True'', ''real alert''] \<and>
   \<not> list_ex field_too_large [csv_header, [''2023-11-02 08:15:00 IST'', ''True'', ''real alert'']] \<and>
   add_missing_columns [''2023-11-02 08:15:00 IST'', ''True'', ''real alert''] =
     [''2023-11-02 08:15:00 IST'', ''True'', ''real alert'', ''unknown'', ''No''] \<and>
   get_events_from_csv env_ok
     (world_csv_only\<lparr>csv_file := Some [csv_header, [''2023-11-02 08:15:00 IST'', ''True'', ''real alert'']]\<rparr>) =
     Inr [[''2023-11-02 08:15:00 IST'', ''True'', ''real alert'', ''unknown'', ''No'']]"
  using legacy_rows_completed
    [of "[''2023-11-02 08:15:00 IST'', ''True'', ''real alert'']" env_ok
        "world_csv_only\<lparr>csv_file := Some [csv_header, [''2023-11-02 08:15:00 IST'', ''True'', ''real alert'']]\<rparr>"
        csv_header "[[''2023-11-02 08:15:00 IST'', ''True'', ''real alert'']]"]
  by (simp add: env_ok_def world_csv_only_def field_too_large_def field_size_limit_def
        csv_header_def)

text \<open>
  C6 as stated fails. A row that misses more than the two newer fields is not
  completed to five: a row of two fields is completed to four, with \<open>unknown\<close> in
  the place of the alert type, and \<^verbatim>\<open>/events\<close> shows \<open>No\<close> as its device id; the
  row of a blank line is completed to two fields, and \<^verbatim>\<open>/events\<close> answers 500 for
  it. And a row can make the reader raise: after \<open>log_event\<close> has written a device id
  of 131073 characters, the reader raises the error of the csv module.
\<close>

theorem short_row_is_misaligned:
  "get_events_from_csv env_ok
     (world_csv_only\<lparr>csv_file := Some [csv_header, [''2023-11-02 08:15:00 IST'', ''True'']]\<rparr>) =
     Inr [[''2023-11-02 08:15:00 IST'', ''True'', ''unknown'', ''No'']]
   \<and> length [''2023-11-02 08:15:00 IST'', ''True'', ''unknown'', ''No''] = 4
   \<and> fst (events env_ok
       (world_csv_only\<lparr>csv_file := Some [csv_header, [''2023-11-02 08:15:00 IST'', ''True'']]\<rparr>)) =
     \<lparr>status_code = 200,
      body = JArr [JObj [(''timestamp'', JStr ''2023-11-02 08:15:00 IST''),
                         (''detection'', JStr ''True''),
                         (''alert_type'', JStr ''unknown''),
                         (''device_id'', JStr ''No'')]]\<rparr>
   \<and> fst (events env_ok (world_csv_only\<lparr>csv_file := Some [csv_header, []]\<rparr>)) =
     \<lparr>status_code = 500, body = JObj [(''error'', JStr ''list index out of range'')]\<rparr>
   \<and> get_events_from_csv env_ok
       (snd (log_event env_ok world_csv_only (JBool True) (JStr ''real alert'')
               (JStr (replicate 131073 (CHR ''a''))))) =
     Inl (CsvError ''field larger than field limit (131072)'')"
proof -
  have small: "get_events_from_csv env_ok
     (world_csv_only\<lparr>csv_file := Some [csv_header, [''2023-11-02 08:15:00 IST'', ''True'']]\<rparr>) =
     Inr [[''2023-11-02 08:15:00 IST'', ''True'', ''unknown'', ''No'']]
   \<and> length [''2023-11-02 08:15:00 IST'', ''True'', ''unknown'', ''No''] = 4
   \<and> fst (events env_ok
       (world_csv_only\<lparr>csv_file := Some [csv_header, [''2023-11-02 08:15:00 IST'', ''True'']]\<rparr>)) =
     \<lparr>status_code = 200,
      body = JArr [JObj [(''timestamp'', JStr ''2023-11-02 08:15:00 IST''),
                         (''detection'', JStr ''True''),
                         (''alert_type'', JStr ''unknown''),
                         (''device_id'', JStr ''No'')]]\<rparr>
   \<and> fst (events env_ok (world_csv_only\<lparr>csv_file := Some [csv_header, []]\<rparr>)) =
     \<lparr>status_code = 500, body = JObj [(''error'', JStr ''list index out of range'')]\<rparr>"
    by (simp add: get_events_from_csv_def add_missing_columns_def events_def events_from_csv_def
          csv_event_dict_def events_error_def env_ok_def world_csv_only_def
          field_too_large_def field_size_limit_def csv_header_def)
  from small oversized_device_id_read_raises show ?thesis
    by blast
qed

section \<open>C9: the fields of the status answer\<close>

text \<open>
  C9, as the code has it. When \<^verbatim>\<open>GET /status\<close> answers, the answer is 200 with
  status \<open>online\<close>, the epoch time, the time zone, an integer count of records, a
  field \<open>database\<close> that is \<open>mongodb\<close> or \<open>csv\<close>, and fields \<open>mongo_status\<close> and
  \<open>twilio_status\<close> that are \<open>connected\<close> or \<open>disconnected\<close>; it has no field
  \<open>primary_status\<close> or \<open>notification_status\<close>.
\<close>

theorem status_fields:
  "api_status en w = Inr r \<Longrightarrow>
   status_code r = 200
   \<and> body_field r ''status'' = Some (JStr ''online'')
   \<and> body_field r ''time'' = Some (JFloat (now_epoch en))
   \<and> body_field r ''timezone'' = Some (JStr TIMEZONE)
   \<and> (\<exists>n. body_field r ''records_count'' = Some (JInt n))
   \<and> body_field r ''database'' = Some (JStr (if MONGO_AVAILABLE w then ''mongodb'' else ''csv''))
   \<and> body_field r ''mongo_status'' =
       Some (JStr (if MONGO_AVAILABLE w then ''connected'' else ''disconnected''))
   \<and> body_field r ''twilio_status'' =
       Some (JStr (if TWILIO_AVAILABLE w then ''connected'' else ''disconnected''))
   \<and> body_field r ''primary_status'' = None
   \<and> body_field r ''notification_status'' = None"
  by (auto simp add: api_status_def body_field_def connected_def split: sum.splits if_splits)

text \<open>C9's amended rule for a process with MongoDB and Twilio available.\<close>

theorem status_fields_witness:
  "api_status env_ok world_mongo =
     Inr \<lparr>status_code = 200,
          body = JObj [(''status'', JStr ''online''),
                       (''time'', JFloat 1714537800),
                       (''timezone'', JStr ''Asia/Kolkata''),
                       (''records_count'', JInt 1),
                       (''database'', JStr ''mongodb''),
                       (''mongo_status'', JStr ''connected''),
                       (''twilio_status'', JStr ''connected'')]\<rparr>
   \<and> body_field \<lparr>status_code = 200,
          body = JObj [(''status'', JStr ''online''),
                       (''time'', JFloat 1714537800),
                       (''timezone'', JStr ''Asia/Kolkata''),
                       (''records_count'', JInt 1),
                       (''database'', JStr ''mongodb''),
                       (''mongo_status'', JStr ''connected''),
                       (''twilio_status'', JStr ''connected'')]\<rparr> ''database'' = Some (JStr ''mongodb'')"
proof -
  have run: "api_status env_ok world_mongo =
     Inr \<lparr>status_code = 200,
          body = JObj [(''status'', JStr ''online''),
                       (''time'', JFloat 1714537800),
                       (''timezone'', JStr ''Asia/Kolkata''),
                       (''records_count'', JInt 1),
                       (''database'', JStr ''mongodb''),
                       (''mongo_status'', JStr ''connected''),
                       (''twilio_status'', JStr ''connected'')]\<rparr>"
    by (simp add: api_status_def env_ok_def world_mongo_def TIMEZONE_def connected_def)
  from status_fields [OF run] run show ?thesis
    by (simp add: world_mongo_def)
qed

text \<open>
  C9 as stated fails: without MongoDB the \<open>database\<close> field is \<open>csv\<close>, neither
  \<open>primary\<close> nor \<open>fallback\<close>, and the answer has no field \<open>primary_status\<close> or
  \<open>notification_status\<close>.
\<close>

theorem status_names_the_backends:
  "map_sum id (\<lambda>r. (body_field r ''database'', body_field r ''primary_status'',
                     body_field r ''notification_status''))
     (api_status env_ok world_csv_only) = Inr (Some (JStr ''csv''), None, None)
   \<and> JStr ''csv'' \<noteq> JStr ''primary'' \<and> JStr ''csv'' \<noteq> JStr ''fallback''"
  by (simp add: api_status_def csv_record_count_def body_field_def connected_def env_ok_def
        world_csv_only_def)

section \<open>C10: the answer and the record agree\<close>

text \<open>
  C10. Whenever \<^verbatim>\<open>POST /fall_event\<close> answers 200, its \<open>sms_alert\<close> is a string
  \<open>s\<close> such that: one row was appended to the file, it has five fields and its
  fifth is \<open>s\<close>; and when MongoDB is available and \<^verbatim>\<open>insert_one\<close> returns, one
  document was added to the collection and its \<open>sms_sent\<close> is \<open>s\<close>, while
  otherwise the collection is unchanged.
\<close>

theorem response_reports_the_recorded_outcome:
  "status_code (fst (fall_event en w request_json)) = 200 \<Longrightarrow>
   \<exists>s. body_field (fst (fall_event en w request_json)) ''sms_alert'' = Some (JStr s)
     \<and> length (file_rows (csv_file (snd (fall_event en w request_json)))) =
         Suc (length (file_rows (csv_file w)))
     \<and> length (last (file_rows (csv_file (snd (fall_event en w request_json))))) = 5
     \<and> last (file_rows (csv_file (snd (fall_event en w request_json)))) ! 4 = s
     \<and> (if MONGO_AVAILABLE w \<and> mongo_insert_id en \<noteq> None
        then (\<exists>doc. events_collection (snd (fall_event en w request_json)) =
                      events_collection w @ [doc] \<and>
                    doc_sms_sent doc = Some (JStr s))
        else events_collection (snd (fall_event en w request_json)) = events_collection w)"
proof -
  assume "status_code (fst (fall_event en w request_json)) = 200"
  then obtain kvs where ok: "csv_oserror en = None" and rq: "request_json = Inr (JObj kvs)"
    and enc: "encodes_report en w kvs"
    using fall_event_200 by blast
  let ?d = "dict_get kvs ''detect'' (JBool False)"
  let ?a = "dict_get kvs ''type'' (JStr ''unknown'')"
  let ?i = "dict_get kvs ''device_id'' (JStr ''unknown'')"
  let ?w1 = "emit (Print ReceivedFallEvent) w"
  let ?s = "sms_outcome en w ?d ?a ?i"
  from enc have wr: "writerow_error en (event_row en ?w1 ?d ?a ?i) = None"
    by (simp add: encodes_report_def event_row_emit)
  have resp: "body_field (fst (fall_event en w request_json)) ''sms_alert'' = Some (JStr ?s)"
    by (simp add: rq fall_event_object [OF ok enc] body_field_def)
  have csvf: "csv_file (snd (fall_event en w request_json)) =
      Some (file_rows (csv_file w) @ [event_row en w ?d ?a ?i])"
    by (simp add: rq fall_event_object_csv_file [OF ok enc])
  have coll: "events_collection (snd (fall_event en w request_json)) =
      events_collection w @
       (if MONGO_AVAILABLE w then
          (case mongo_insert_id en of
             Some oid \<Rightarrow> [new_event_doc en oid (now_str en) ?i ?d ?a ?s]
           | None \<Rightarrow> [])
        else [])"
    by (simp add: rq fall_event_object [OF ok enc] log_event_events_collection [OF ok wr]
          events_collection_emit flags_emit sms_outcome_emit split: option.splits)
  have docs: "if MONGO_AVAILABLE w \<and> mongo_insert_id en \<noteq> None
        then (\<exists>doc. events_collection (snd (fall_event en w request_json)) =
                      events_collection w @ [doc] \<and>
                    doc_sms_sent doc = Some (JStr ?s))
        else events_collection (snd (fall_event en w request_json)) = events_collection w"
    by (auto simp add: coll new_event_doc_def)
  have rows: "length (file_rows (csv_file (snd (fall_event en w request_json)))) =
         Suc (length (file_rows (csv_file w)))
     \<and> length (last (file_rows (csv_file (snd (fall_event en w request_json))))) = 5
     \<and> last (file_rows (csv_file (snd (fall_event en w request_json)))) ! 4 = ?s"
    by (simp add: csvf file_rows_def event_row_def)
  from resp rows docs show ?thesis by blast
qed

text \<open>
  C10 at a real alert with MongoDB available: the answer, the new row and the new
  document all say \<open>Yes\<close>.
\<close>

theorem response_reports_the_recorded_outcome_witness:
  "status_code (fst (fall_event env_ok world_mongo
      (Inr (JObj [(''detect'', JBool True), (''type'', JStr ''real alert''),
                  (''device_id'', JStr ''esp-7'')])))) = 200 \<and>
   body_field (fst (fall_event env_ok world_mongo
      (Inr (JObj [(''detect'', JBool True), (''type'', JStr ''real alert''),
                  (''device_id'', JStr ''esp-7'')])))) ''sms_alert'' = Some (JStr ''Yes'') \<and>
   last (file_rows (csv_file (snd (fall_event env_ok world_mongo
      (Inr (JObj [(''detect'', JBool True), (''type'', JStr ''real alert''),
                  (''device_id'', JStr ''esp-7'')])))))) =
     [''2024-05-01 10:00:00 IST'', ''True'', ''real alert'', ''esp-7'', ''Yes''] \<and>
   map doc_sms_sent (events_collection (snd (fall_event env_ok world_mongo
      (Inr (JObj [(''detect'', JBool True), (''type'', JStr ''real alert''),
                  (''device_id'', JStr ''esp-7'')]))))) =
     [Some (JStr ''No''), Some (JStr ''Yes'')]"
proof -
  let ?rq = "Inr (JObj [(''detect'', JBool True), (''type'', JStr ''real alert''),
                  (''device_id'', JStr ''esp-7'')]) :: error + json"
  have ok: "status_code (fst (fall_event env_ok world_mongo ?rq)) = 200"
  proof -
    have "csv_oserror env_ok = None"
      by (simp add: env_ok_def)
    then show ?thesis
      by (simp add: fall_event_object encodes_report_env_ok)
  qed
  have run: "body_field (fst (fall_event env_ok world_mongo ?rq)) ''sms_alert'' = Some (JStr ''Yes'') \<and>
     last (file_rows (csv_file (snd (fall_event env_ok world_mongo ?rq)))) =
       [''2024-05-01 10:00:00 IST'', ''True'', ''real alert'', ''esp-7'', ''Yes''] \<and>
     map doc_sms_sent (events_collection (snd (fall_event env_ok world_mongo ?rq))) =
       [Some (JStr ''No''), Some (JStr ''Yes'')]"
    by (simp add: fall_event_def dict_get_def log_event_unfold env_ok_def world_mongo_def
          old_doc_def file_rows_def body_field_def new_event_doc_def writerow_error.simps)
  from response_reports_the_recorded_outcome [OF ok] ok run show ?thesis
    by blast
qed

section \<open>What \<open>events\<close> lists\<close>



lemma csv_event_dicts_Inr:
  "csv_event_dicts es = Inr ds \<longleftrightarrow> map csv_event_dict es = map Inr ds"
proof (induction es arbitrary: ds)
  case Nil
  show ?case by auto
next
  case (Cons e es)
  show ?case
  proof (cases "csv_event_dict e")
    case (Inl err)
    then show ?thesis by (cases ds) auto
  next
    case d: (Inr d)
    show ?thesis
    proof (cases "csv_event_dicts es")
      case (Inl err)
      with d Cons.IH show ?thesis by (cases ds) auto
    next
      case (Inr ds')
      with d Cons.IH [of ds'] Cons.IH show ?thesis by (cases ds) auto
    qed
  qed
qed


lemma body_records_JArr: "body_records \<lparr>status_code = c, body = JArr xs\<rparr> = xs"
  by (simp add: body_records_def)



lemma add_missing_columns_length: "event \<noteq> [] \<Longrightarrow> 3 \<le> length (add_missing_columns event)"
  by (cases event) (auto simp add: add_missing_columns_def Let_def)

lemma csv_event_dicts_total:
  "\<forall>e \<in> set es. 3 \<le> length e \<Longrightarrow> \<exists>ds. csv_event_dicts es = Inr ds"
  by (induction es) (auto simp add: csv_event_dict_def)

lemma events_mongo_path:
  "MONGO_AVAILABLE w \<Longrightarrow> mongo_find_ok en \<Longrightarrow>
   fst (events en w) =
     \<lparr>status_code = 200,
      body = JArr (map (mongo_event_dict en) (find_sort_limit en (events_collection w)))\<rparr>"
  by (simp add: events_def)

lemma events_csv_path:
  "\<not> (MONGO_AVAILABLE w \<and> mongo_find_ok en) \<Longrightarrow> fst (events en w) = events_from_csv en w"
  by (auto simp add: events_def Let_def events_from_csv_emit)

lemma events_from_csv_rows:
  assumes "csv_oserror en = None" and "csv_file w = Some (header # rest)"
    and "\<not> list_ex field_too_large (header # rest)"
    and "\<forall>e \<in> set (take 20 (rev rest)). e \<noteq> []"
  shows "status_code (events_from_csv en w) = 200 \<and>
         map Inr (body_records (events_from_csv en w)) =
           map csv_event_dict
             (map add_missing_columns (take 20 (rev (map (map universal_newlines) rest))))"
proof -
  let ?rows = "map add_missing_columns (take 20 (rev (map (map universal_newlines) rest)))"
  have rd: "get_events_from_csv en w = Inr ?rows"
    using assms(1,2,3) by (rule get_events_from_csv_rows)
  have "take 20 (rev (map (map universal_newlines) rest)) =
        map (map universal_newlines) (take 20 (rev rest))"
    by (simp add: rev_map take_map)
  with assms(4) have "\<forall>e \<in> set (take 20 (rev (map (map universal_newlines) rest))). e \<noteq> []"
    by auto
  then have "\<forall>e \<in> set ?rows. 3 \<le> length e"
    by (auto simp add: add_missing_columns_length)
  then obtain ds where ds: "csv_event_dicts ?rows = Inr ds"
    using csv_event_dicts_total by blast
  then have "map csv_event_dict ?rows = map Inr ds"
    by (simp add: csv_event_dicts_Inr)
  with rd ds show ?thesis
    by (simp add: events_from_csv_def body_records_JArr)
qed

section \<open>C7: what \<^verbatim>\<open>GET /events\<close> lists, and in which order\<close>


lemma sorted_as_documented_env_ok: "sorted_as_documented env_ok docs"
  by (simp add: sorted_as_documented_def env_ok_def rev_map [symmetric])



section \<open>The event written last, read back\<close>

lemma sorted_desc_head:
  fixes f :: "'a \<Rightarrow> 'b :: linorder"
  shows "sorted (rev (map f (x # xs))) \<Longrightarrow> \<forall>y \<in> set xs. f y \<le> f x"
  by (auto simp add: sorted_append)

lemma newest_is_listed_first:
  fixes f :: "'a \<Rightarrow> 'b :: linorder"
  assumes perm: "mset xs = mset (docs @ [new])"
    and desc: "sorted (rev (map f xs))"
    and newest: "\<forall>d \<in> set docs. f d < f new"
  shows "\<exists>xs'. xs = new # xs'"
proof (cases xs)
  case Nil
  with perm show ?thesis by simp
next
  case (Cons x xs')
  from perm have mem: "set xs = set docs \<union> {new}"
    by (metis mset_eq_setD set_append list.set(1) list.set(2) Un_commute insert_is_Un)
  have "x = new"
  proof (rule ccontr)
    assume ne: "x \<noteq> new"
    with Cons mem have "x \<in> set docs" by auto
    with newest have lt: "f x < f new" by blast
    from Cons mem ne have "new \<in> set xs'" by auto
    with desc Cons sorted_desc_head [of f x xs'] have "f new \<le> f x" by blast
    with lt show False by simp
  qed
  with Cons show ?thesis by blast
qed

lemma find_sort_limit_newest:
  assumes "sorted_as_documented en (docs @ [new])"
    and "\<forall>d \<in> set docs. doc_timestamp d < doc_timestamp new"
  shows "\<exists>more. find_sort_limit en (docs @ [new]) = new # more"
proof -
  from assms obtain xs' where "mongo_sorted en (docs @ [new]) = new # xs'"
    using newest_is_listed_first [of "mongo_sorted en (docs @ [new])" docs new doc_timestamp]
    by (auto simp add: sorted_as_documented_def)
  then show ?thesis
    by (simp add: find_sort_limit_def)
qed

lemma map_Inr_Cons:
  "map Inr xs = Inr d # ys \<Longrightarrow> \<exists>more. xs = d # more"
  by (cases xs) auto

lemma csv_event_dict_five:
  "csv_event_dict [t, d, a, i, s] =
     Inr (JObj [(''timestamp'', JStr t), (''detection'', JStr d), (''alert_type'', JStr a),
                (''device_id'', JStr i), (''sms_sent'', JStr s)])"
  by (simp add: csv_event_dict_def)

lemma add_missing_columns_five: "add_missing_columns [t, d, a, i, s] = [t, d, a, i, s]"
  by (simp add: add_missing_columns_def)

lemma universal_newlines_sms_outcome:
  "universal_newlines (sms_outcome en w d a i) = sms_outcome en w d a i"
  by (simp add: sms_outcome_def)

lemma event_row_read_back:
  "map universal_newlines (event_row en w (JBool b) (JStr a) (JStr i)) =
     [universal_newlines (now_str en), if b then ''True'' else ''False'',
      universal_newlines a, universal_newlines i,
      sms_outcome en w (JBool b) (JStr a) (JStr i)]"
  by (simp add: event_row_def universal_newlines_sms_outcome)

section \<open>C8: reading back the event just written\<close>

text \<open>
  C8, as the code has it, for a report with a boolean \<open>detect\<close>, a string \<open>type\<close>
  and a string \<open>device_id\<close>, a file that can be opened and a row that can be
  encoded.
  From the file: when the file had a first line before the write and no field of it,
  the new row included, is over the size limit of the csv module, the reader returns
  the new row first, as the csv module reads it: every carriage return of a written
  field comes back as a line feed, so a type and a device id without carriage return
  come back as they were submitted, and the detection comes back as the text
  \<open>True\<close> or \<open>False\<close>. When the list is not taken from MongoDB and none of the
  nineteen rows before is a blank line, this row is the first record of
  \<^verbatim>\<open>GET /events\<close>.
  From MongoDB: when \<^verbatim>\<open>insert_one\<close> returned, the query returns, the driver
  sorts as it documents, and every stored timestamp is earlier than the new one, the
  first record of \<^verbatim>\<open>GET /events\<close> has the submitted device id, detection value
  and type.
\<close>

theorem append_then_read_most_recent:
  "(csv_oserror en = None \<and> csv_oserror en' = None \<and> csv_file w = Some (header # rest) \<and>
    writerow_error en (event_row en w (JBool b) (JStr a) (JStr i)) = None \<and>
    \<not> list_ex field_too_large (header # rest @ [event_row en w (JBool b) (JStr a) (JStr i)]) \<longrightarrow>
      get_events_from_csv en' (snd (log_event en w (JBool b) (JStr a) (JStr i))) =
        Inr ([universal_newlines (now_str en), if b then ''True'' else ''False'',
              universal_newlines a, universal_newlines i,
              sms_outcome en w (JBool b) (JStr a) (JStr i)]
             # map add_missing_columns (take 19 (rev (map (map universal_newlines) rest)))))
   \<and> (CHR 0x0D \<notin> set a \<longrightarrow> universal_newlines a = a)
   \<and> (CHR 0x0D \<notin> set i \<longrightarrow> universal_newlines i = i)
   \<and> (csv_oserror en = None \<and> csv_oserror en' = None \<and> csv_file w = Some (header # rest) \<and>
       writerow_error en (event_row en w (JBool b) (JStr a) (JStr i)) = None \<and>
       \<not> list_ex field_too_large (header # rest @ [event_row en w (JBool b) (JStr a) (JStr i)]) \<and>
       \<not> (MONGO_AVAILABLE w \<and> mongo_find_ok en') \<and> (\<forall>e \<in> set (take 19 (rev rest)). e \<noteq> []) \<longrightarrow>
      (\<exists>more. body_records (fst (events en' (snd (log_event en w (JBool b) (JStr a) (JStr i))))) =
         JObj [(''timestamp'', JStr (universal_newlines (now_str en))),
               (''detection'', JStr (if b then ''True'' else ''False'')),
               (''alert_type'', JStr (universal_newlines a)),
               (''device_id'', JStr (universal_newlines i)),
               (''sms_sent'', JStr (sms_outcome en w (JBool b) (JStr a) (JStr i)))] # more))
   \<and> (csv_oserror en = None \<and>
       writerow_error en (event_row en w (JBool b) (JStr a) (JStr i)) = None \<and>
       MONGO_AVAILABLE w \<and> mongo_find_ok en' \<and> mongo_insert_id en = Some oid \<and>
       sorted_as_documented en'
         (events_collection (snd (log_event en w (JBool b) (JStr a) (JStr i)))) \<and>
       (\<forall>doc \<in> set (events_collection w). doc_timestamp doc < Some (now_dt en)) \<longrightarrow>
      (\<exists>r more. body_records (fst (events en' (snd (log_event en w (JBool b) (JStr a) (JStr i))))) =
           r # more \<and>
         record_field r ''device_id'' = Some (JStr i) \<and>
         record_field r ''detection'' = Some (JBool b) \<and>
         record_field r ''alert_type'' = Some (JStr a)))"
proof -
  let ?w' = "snd (log_event en w (JBool b) (JStr a) (JStr i))"
  let ?s = "sms_outcome en w (JBool b) (JStr a) (JStr i)"
  let ?row = "event_row en w (JBool b) (JStr a) (JStr i)"
  let ?rd = "[universal_newlines (now_str en), if b then ''True'' else ''False'',
                universal_newlines a, universal_newlines i, ?s]"
  have readback: "map universal_newlines ?row = ?rd"
    by (rule event_row_read_back)
  have flags: "MONGO_AVAILABLE ?w' = MONGO_AVAILABLE w"
    by (simp add: log_event_world_flags)
  have csvf: "csv_file ?w' = Some (header # (rest @ [?row]))"
    if "csv_oserror en = None" "csv_file w = Some (header # rest)" "writerow_error en ?row = None"
    using that by (simp add: log_event_csv_row file_rows_def)
  have part1: "get_events_from_csv en' ?w' =
        Inr (?rd # map add_missing_columns (take 19 (rev (map (map universal_newlines) rest))))"
    if "csv_oserror en = None" "csv_oserror en' = None" "csv_file w = Some (header # rest)"
       "writerow_error en ?row = None" "\<not> list_ex field_too_large (header # rest @ [?row])"
  proof -
    have "get_events_from_csv en' ?w' =
            Inr (map add_missing_columns
                   (take 20 (rev (map (map universal_newlines) (rest @ [?row])))))"
      using that(2) csvf [OF that(1,3,4)] that(5) by (rule get_events_from_csv_rows)
    then show ?thesis
      by (simp add: readback add_missing_columns_five)
  qed
  have part2: "\<exists>more. body_records (fst (events en' ?w')) =
         JObj [(''timestamp'', JStr (universal_newlines (now_str en))),
               (''detection'', JStr (if b then ''True'' else ''False'')),
               (''alert_type'', JStr (universal_newlines a)),
               (''device_id'', JStr (universal_newlines i)),
               (''sms_sent'', JStr ?s)] # more"
    if "csv_oserror en = None" "csv_oserror en' = None" "csv_file w = Some (header # rest)"
       "writerow_error en ?row = None" "\<not> list_ex field_too_large (header # rest @ [?row])"
       "\<not> (MONGO_AVAILABLE w \<and> mongo_find_ok en')" "\<forall>e \<in> set (take 19 (rev rest)). e \<noteq> []"
  proof -
    have "?row \<noteq> []"
      by (simp add: event_row_def)
    with that(7) have nb: "\<forall>e \<in> set (take 20 (rev (rest @ [?row]))). e \<noteq> []"
      by simp
    have path: "fst (events en' ?w') = events_from_csv en' ?w'"
      using that(6) flags by (simp add: events_csv_path)
    from events_from_csv_rows [OF that(2) csvf [OF that(1,3,4)] that(5) nb]
    have "map Inr (body_records (events_from_csv en' ?w')) =
            map csv_event_dict (map add_missing_columns
              (take 20 (rev (map (map universal_newlines) (rest @ [?row])))))"
      by simp
    then have "map Inr (body_records (events_from_csv en' ?w')) =
            Inr (JObj [(''timestamp'', JStr (universal_newlines (now_str en))),
               (''detection'', JStr (if b then ''True'' else ''False'')),
               (''alert_type'', JStr (universal_newlines a)),
               (''device_id'', JStr (universal_newlines i)),
               (''sms_sent'', JStr ?s)])
            # map csv_event_dict (map add_missing_columns
                (take 19 (rev (map (map universal_newlines) rest))))"
      by (simp add: readback add_missing_columns_five csv_event_dict_five)
    then show ?thesis
      unfolding path by (rule map_Inr_Cons)
  qed
  have part3: "\<exists>r more. body_records (fst (events en' ?w')) = r # more \<and>
         record_field r ''device_id'' = Some (JStr i) \<and>
         record_field r ''detection'' = Some (JBool b) \<and>
         record_field r ''alert_type'' = Some (JStr a)"
    if "csv_oserror en = None" "writerow_error en ?row = None" "MONGO_AVAILABLE w"
       "mongo_find_ok en'" "mongo_insert_id en = Some oid"
       "sorted_as_documented en' (events_collection ?w')"
       "\<forall>doc \<in> set (events_collection w). doc_timestamp doc < Some (now_dt en)"
  proof -
    let ?new = "new_event_doc en oid (now_str en) (JStr i) (JBool b) (JStr a) ?s"
    have coll: "events_collection ?w' = events_collection w @ [?new]"
      using that(1,2,3,5) by (simp add: log_event_events_collection)
    have "doc_timestamp ?new = Some (now_dt en)"
      by (simp add: new_event_doc_def)
    with that(7) have "\<forall>d \<in> set (events_collection w). doc_timestamp d < doc_timestamp ?new"
      by simp
    with that(6) obtain more where
      "find_sort_limit en' (events_collection ?w') = ?new # more"
      unfolding coll using find_sort_limit_newest by blast
    moreover have "fst (events en' ?w') =
        \<lparr>status_code = 200,
         body = JArr (map (mongo_event_dict en') (find_sort_limit en' (events_collection ?w')))\<rparr>"
      using that(3,4) flags by (simp add: events_mongo_path)
    ultimately have "body_records (fst (events en' ?w')) =
        mongo_event_dict en' ?new # map (mongo_event_dict en') more"
      by (simp add: body_records_JArr)
    moreover have "record_field (mongo_event_dict en' ?new) ''device_id'' = Some (JStr i) \<and>
         record_field (mongo_event_dict en' ?new) ''detection'' = Some (JBool b) \<and>
         record_field (mongo_event_dict en' ?new) ''alert_type'' = Some (JStr a)"
      by (simp add: mongo_event_dict_def new_event_doc_def record_field_def or_default_def)
    ultimately show ?thesis by blast
  qed
  have nl: "(CHR 0x0D \<notin> set a \<longrightarrow> universal_newlines a = a) \<and>
            (CHR 0x0D \<notin> set i \<longrightarrow> universal_newlines i = i)"
    by (simp add: universal_newlines_id)
  from part1 part2 part3 nl show ?thesis by blast
qed

text \<open>
  C8's amended rule for a real alert of \<open>esp-7\<close>: read back from a file that holds
  an older event, and read back from MongoDB.
\<close>

theorem append_then_read_most_recent_witness:
  "get_events_from_csv env_ok
     (snd (log_event env_ok (world_mongo\<lparr>MONGO_AVAILABLE := False\<rparr>)
             (JBool True) (JStr ''real alert'') (JStr ''esp-7''))) =
     Inr [[''2024-05-01 10:00:00 IST'', ''True'', ''real alert'', ''esp-7'', ''Yes''],
          [''2024-05-01 09:00:00 IST'', ''False'', ''false alert'', ''esp-1'', ''No'']]
   \<and> take 1 (body_records (fst (events env_ok
        (snd (log_event env_ok (world_mongo\<lparr>MONGO_AVAILABLE := False\<rparr>)
                (JBool True) (JStr ''real alert'') (JStr ''esp-7'')))))) =
       [JObj [(''timestamp'', JStr ''2024-05-01 10:00:00 IST''),
              (''detection'', JStr ''True''),
              (''alert_type'', JStr ''real alert''),
              (''device_id'', JStr ''esp-7''),
              (''sms_sent'', JStr ''Yes'')]]
   \<and> universal_newlines ''esp-7'' = ''esp-7''
   \<and> sorted_as_documented env_ok
       (events_collection (snd (log_event env_ok world_mongo
          (JBool True) (JStr ''real alert'') (JStr ''esp-7''))))
   \<and> map (\<lambda>r. (record_field r ''device_id'', record_field r ''detection'',
                 record_field r ''alert_type''))
       (take 1 (body_records (fst (events env_ok
          (snd (log_event env_ok world_mongo (JBool True) (JStr ''real alert'') (JStr ''esp-7''))))))) =
       [(Some (JStr ''esp-7''), Some (JBool True), Some (JStr ''real alert''))]"
proof -
  let ?wf = "world_mongo\<lparr>MONGO_AVAILABLE := False\<rparr>"
  let ?old_row = "[''2024-05-01 09:00:00 IST'', ''False'', ''false alert'', ''esp-1'', ''No'']"
  let ?new_row = "[''2024-05-01 10:00:00 IST'', ''True'', ''real alert'', ''esp-7'', ''Yes'']"
  have s: "sms_outcome env_ok ?wf (JBool True) (JStr ''real alert'') (JStr ''esp-7'') = ''Yes''"
    by (simp add: sms_outcome_def send_sms_alert_def emit_def env_ok_def world_mongo_def)
  have t: "now_str env_ok = ''2024-05-01 10:00:00 IST''"
    by (simp add: env_ok_def)
  have row: "event_row env_ok ?wf (JBool True) (JStr ''real alert'') (JStr ''esp-7'') = ?new_row"
    by (simp add: event_row_def s t)
  have small: "\<not> list_ex field_too_large (csv_header # [?old_row] @ [?new_row])"
    by (simp add: field_too_large_def field_size_limit_def csv_header_def)
  have h1: "csv_oserror env_ok = None \<and> csv_file ?wf = Some (csv_header # [?old_row]) \<and>
            writerow_error env_ok
              (event_row env_ok ?wf (JBool True) (JStr ''real alert'') (JStr ''esp-7'')) = None \<and>
            \<not> list_ex field_too_large (csv_header # [?old_row] @
               [event_row env_ok ?wf (JBool True) (JStr ''real alert'') (JStr ''esp-7'')]) \<and>
            \<not> (MONGO_AVAILABLE ?wf \<and> mongo_find_ok env_ok) \<and>
            (\<forall>e \<in> set (take 19 (rev [?old_row])). e \<noteq> [])"
    using small by (simp add: writerow_error_env_ok row) (simp add: env_ok_def world_mongo_def)
  have srt: "sorted_as_documented env_ok
       (events_collection (snd (log_event env_ok world_mongo
          (JBool True) (JStr ''real alert'') (JStr ''esp-7''))))"
    by (rule sorted_as_documented_env_ok)
  have h2: "csv_oserror env_ok = None \<and>
            writerow_error env_ok
              (event_row env_ok world_mongo (JBool True) (JStr ''real alert'') (JStr ''esp-7'')) = None \<and>
            MONGO_AVAILABLE world_mongo \<and> mongo_find_ok env_ok \<and>
            mongo_insert_id env_ok = Some ''663200a1'' \<and>
            (\<forall>doc \<in> set (events_collection world_mongo). doc_timestamp doc < Some (now_dt env_ok))"
    by (simp add: writerow_error_env_ok) (simp add: env_ok_def world_mongo_def old_doc_def)
  note csv = append_then_read_most_recent
      [of env_ok env_ok ?wf csv_header "[?old_row]" True "''real alert''" "''esp-7''" "''663200a1''"]
  note mongo = append_then_read_most_recent
      [of env_ok env_ok world_mongo csv_header "[?old_row]"
          True "''real alert''" "''esp-7''" "''663200a1''"]
  from csv h1 have a: "get_events_from_csv env_ok
     (snd (log_event env_ok ?wf (JBool True) (JStr ''real alert'') (JStr ''esp-7''))) =
     Inr [?new_row, ?old_row]"
    by (simp add: s t add_missing_columns_five)
  from csv h1 obtain more where
    "body_records (fst (events env_ok
        (snd (log_event env_ok ?wf (JBool True) (JStr ''real alert'') (JStr ''esp-7''))))) =
       JObj [(''timestamp'', JStr ''2024-05-01 10:00:00 IST''),
              (''detection'', JStr ''True''),
              (''alert_type'', JStr ''real alert''),
              (''device_id'', JStr ''esp-7''),
              (''sms_sent'', JStr ''Yes'')] # more"
    by (auto simp add: s t)
  then have b: "take 1 (body_records (fst (events env_ok
        (snd (log_event env_ok ?wf (JBool True) (JStr ''real alert'') (JStr ''esp-7'')))))) =
       [JObj [(''timestamp'', JStr ''2024-05-01 10:00:00 IST''),
              (''detection'', JStr ''True''),
              (''alert_type'', JStr ''real alert''),
              (''device_id'', JStr ''esp-7''),
              (''sms_sent'', JStr ''Yes'')]]"
    by simp
  from csv have n: "universal_newlines ''esp-7'' = ''esp-7''"
    by simp
  from mongo h2 srt obtain r more where
    "body_records (fst (events env_ok
          (snd (log_event env_ok world_mongo (JBool True) (JStr ''real alert'') (JStr ''esp-7''))))) =
       r # more"
    "record_field r ''device_id'' = Some (JStr ''esp-7'')"
    "record_field r ''detection'' = Some (JBool True)"
    "record_field r ''alert_type'' = Some (JStr ''real alert'')"
    by blast
  then have c: "map (\<lambda>r. (record_field r ''device_id'', record_field r ''detection'',
                 record_field r ''alert_type''))
       (take 1 (body_records (fst (events env_ok
          (snd (log_event env_ok world_mongo (JBool True) (JStr ''real alert'') (JStr ''esp-7''))))))) =
       [(Some (JStr ''esp-7''), Some (JBool True), Some (JStr ''real alert''))]"
    by simp
  from a b n srt c show ?thesis by blast
qed

text \<open>
  C8 as stated fails. When \<^verbatim>\<open>insert_one\<close> raises, the report is accepted and
  written to the file only, and a list then served by MongoDB starts with an older
  event of another device. Read back from the file, the detection of the record is
  the text \<open>True\<close>, not the boolean, and a device id that holds a carriage return
  comes back with a line feed in its place. When the file did not exist, the new row
  is its first line, which the reader skips as the header: the list is empty. And
  after a device id of 131073 characters has been written, the reader raises.
\<close>

theorem most_recent_record_can_differ_from_the_report:
  "status_code (fst (fall_event (env_ok\<lparr>mongo_insert_id := None\<rparr>) world_mongo real_alert_esp7)) = 200
   \<and> map (\<lambda>r. record_field r ''device_id'')
       (body_records (fst (events env_ok
          (snd (fall_event (env_ok\<lparr>mongo_insert_id := None\<rparr>) world_mongo real_alert_esp7))))) =
       [Some (JStr ''esp-1'')]
   \<and> JStr ''esp-1'' \<noteq> JStr ''esp-7''
   \<and> map (\<lambda>r. record_field r ''detection'')
       (body_records (fst (events env_ok (snd (fall_event env_ok world_csv_only real_alert_esp7))))) =
       [Some (JStr ''True'')]
   \<and> JStr ''True'' \<noteq> JBool True
   \<and> map (\<lambda>r. record_field r ''device_id'')
       (body_records (fst (events env_ok (snd (fall_event env_ok world_csv_only real_alert_cr))))) =
       [Some (JStr (''a'' @ [CHR 0x0A] @ ''b''))]
   \<and> ''a'' @ [CHR 0x0A] @ ''b'' \<noteq> ''a'' @ [CHR 0x0D] @ ''b''
   \<and> status_code (fst (fall_event env_ok (world_csv_only\<lparr>csv_file := None\<rparr>) real_alert_esp7)) = 200
   \<and> fst (events env_ok (snd (fall_event env_ok (world_csv_only\<lparr>csv_file := None\<rparr>) real_alert_esp7))) =
       \<lparr>status_code = 200, body = JArr []\<rparr>
   \<and> get_events_from_csv env_ok
       (snd (log_event env_ok world_csv_only (JBool True) (JStr ''real alert'')
               (JStr (replicate 131073 (CHR ''a''))))) =
       Inl (CsvError ''field larger than field limit (131072)'')"
proof -
  have runs:
   "status_code (fst (fall_event (env_ok\<lparr>mongo_insert_id := None\<rparr>) world_mongo real_alert_esp7)) = 200
   \<and> map (\<lambda>r. record_field r ''device_id'')
       (body_records (fst (events env_ok
          (snd (fall_event (env_ok\<lparr>mongo_insert_id := None\<rparr>) world_mongo real_alert_esp7))))) =
       [Some (JStr ''esp-1'')]
   \<and> JStr ''esp-1'' \<noteq> JStr ''esp-7''
   \<and> map (\<lambda>r. record_field r ''detection'')
       (body_records (fst (events env_ok (snd (fall_event env_ok world_csv_only real_alert_esp7))))) =
       [Some (JStr ''True'')]
   \<and> JStr ''True'' \<noteq> JBool True
   \<and> map (\<lambda>r. record_field r ''device_id'')
       (body_records (fst (events env_ok (snd (fall_event env_ok world_csv_only real_alert_cr))))) =
       [Some (JStr (''a'' @ [CHR 0x0A] @ ''b''))]
   \<and> ''a'' @ [CHR 0x0A] @ ''b'' \<noteq> ''a'' @ [CHR 0x0D] @ ''b''
   \<and> status_code (fst (fall_event env_ok (world_csv_only\<lparr>csv_file := None\<rparr>) real_alert_esp7)) = 200
   \<and> fst (events env_ok (snd (fall_event env_ok (world_csv_only\<lparr>csv_file := None\<rparr>) real_alert_esp7))) =
       \<lparr>status_code = 200, body = JArr []\<rparr>"
    by (simp add: real_alert_esp7_def real_alert_cr_def fall_event_def dict_get_def
        log_event_unfold events_def
        events_from_csv_def get_events_from_csv_def add_missing_columns_def csv_event_dict_def
        find_sort_limit_def mongo_event_dict_def or_default_def body_records_def record_field_def
        file_rows_def env_ok_def world_mongo_def world_csv_only_def old_doc_def
        writerow_error.simps field_too_large_def field_size_limit_def csv_header_def)
  from runs oversized_device_id_read_raises show ?thesis
    by blast
qed

end
